theory Spec2Isabelle
  imports Main "HOL-Library.AList" "HOL-Library.Sublist"
begin

section \<open>Declarations imported from other modules\<close>

text \<open>
  The graph-store module imports constants and helpers from \<^verbatim>\<open>../schema/*\<close>,
  \<^verbatim>\<open>../utils/access\<close>, \<^verbatim>\<open>./utils\<close> and the configuration. Their
  definitions are not part of the code under study, so every function below takes them as
  the fields of one parameter record and makes no assumption about their values
  (\<^verbatim>\<open>isNotEmptyField\<close> is used on ids and on cached values, and has a field for each;
  \<open>ES_MAX_PAGINATION\<close> is \<^verbatim>\<open>conf.get('elasticsearch:max_pagination_result')\<close>, 5000
  in the default configuration; \<open>cursorToOffset\<close> decodes a cursor and may throw).
  \<open>ToString\<close> stands for JavaScript's conversion of numbers, arrays and objects to
  strings, and \<open>Array_prototype_members\<close> for the names an array inherits from
  \<^verbatim>\<open>Array.prototype\<close>, which depend on the version of the runtime; both are left open
  in the same way.
\<close>

datatype jsval =
    JUndefined
  | JNull
  | JBool bool
  | JNum int
  | JStr string
  | JArr "jsval list"
  | JObj "(string \<times> jsval) list"

text \<open>
  An element as the callers of the search functions read it (the result of
  \<^verbatim>\<open>elDataConverter\<close>): \<open>x_index\<close> is \<^verbatim>\<open>_index\<close>; a property that may be
  absent is an option.
\<close>

record element =
  internal_id :: string
  entity_type :: string
  relationship_type :: "string option"
  fromId :: "string option"
  toId :: "string option"
  x_index :: string
  level :: "nat option"
  object_marking_refs :: "string list option"

text \<open>
  The error constructors the module imports from \<^verbatim>\<open>../config/errors\<close> are
  \<^verbatim>\<open>ConfigurationError\<close>, \<^verbatim>\<open>DatabaseError\<close> and \<^verbatim>\<open>FunctionalError\<close>. The
  specification's taxonomy also names \<open>DataIntegrityError\<close> and \<open>OutOfRangeError\<close>;
  they are classes here so that statements can speak about them, and no function below
  constructs them. A message is the source's text, placeholders of template literals
  included.
\<close>

datatype error_class =
    ConfigurationError
  | DatabaseError
  | FunctionalError
  | DataIntegrityError
  | OutOfRangeError

text \<open>
  What the engine client reports for a failed call: \<open>root_cause\<close> is the list of
  \<^verbatim>\<open>reason\<close> strings at \<^verbatim>\<open>err.meta.body.error.root_cause\<close>, \<open>None\<close> when the
  error carries no response body (a connection failure).
\<close>

record es_error =
  es_message :: string
  root_cause :: "string list option"

text \<open>
  What a function throws: an error of the platform, the error of the engine client, or a
  TypeError or SyntaxError of the language.
\<close>

datatype failure =
    AppError error_class string
  | EngineFailure es_error
  | TypeError string
  | SyntaxError string

fun failure_class :: "failure \<Rightarrow> error_class option" where
  "failure_class (AppError c m) = Some c"
| "failure_class _ = None"

record decls =
  BYPASS :: string
  RELATION_OBJECT_MARKING :: string
  RELATION_CREATED_BY :: string
  RELATION_OBJECT_LABEL :: string
  RELATION_KILL_CHAIN_PHASE :: string
  RELATION_INDICATES :: string
  BASE_TYPE_RELATION :: string
  INTERNAL_FROM_FIELD :: string
  INTERNAL_TO_FIELD :: string
  buildRefRelationKey :: "string \<Rightarrow> string"
  buildRefRelationSearchKey :: "jsval \<Rightarrow> string"
  getParentTypes :: "jsval \<Rightarrow> jsval list"
  convertEntityTypeToStixType :: "jsval \<Rightarrow> string"
  isBasicRelationship :: "string \<Rightarrow> bool"
  isStixRelationShipExceptMeta :: "string option \<Rightarrow> bool"
  isStixObjectAliased :: "string option \<Rightarrow> bool"
  isNotEmptyField_id :: "string option \<Rightarrow> bool"
  isNotEmptyField_element :: "element option \<Rightarrow> bool"
  getInstanceIds :: "element option \<Rightarrow> string list"
  ID_INTERNAL :: string
  ID_STANDARD :: string
  IDS_STIX :: string
  INTERNAL_IDS_ALIASES :: string
  ES_MAX_PAGINATION :: int
  READ_PLATFORM_INDICES :: string
  READ_RELATIONSHIPS_INDICES :: string
  READ_DATA_INDICES :: string
  cursorToOffset :: "string \<Rightarrow> failure + jsval"
  Array_prototype_members :: "string list"
  ToString :: "jsval \<Rightarrow> string"

section \<open>JavaScript objects\<close>

text \<open>
  An object is the list of its entries; reading a property that is not there gives
  \<^verbatim>\<open>undefined\<close>. \<^verbatim>\<open>R.assoc\<close>, \<^verbatim>\<open>R.dissoc\<close> and \<^verbatim>\<open>R.mergeAll\<close> return
  changed copies (a later object of a merge overrides an earlier one). Only what a key
  maps to is ever read, so the order of the entries carries no meaning.
\<close>

type_synonym js_object = "(string \<times> jsval) list"

definition js_get :: "js_object \<Rightarrow> string \<Rightarrow> jsval" where
  "js_get obj k = (case map_of obj k of None \<Rightarrow> JUndefined | Some v \<Rightarrow> v)"

text \<open>Property access on a value that is neither \<^verbatim>\<open>undefined\<close> nor \<^verbatim>\<open>null\<close>:
  primitives and arrays have none of the properties read here.\<close>

fun js_prop :: "jsval \<Rightarrow> string \<Rightarrow> jsval" where
  "js_prop (JObj obj) k = js_get obj k"
| "js_prop _ k = JUndefined"

fun truthy :: "jsval \<Rightarrow> bool" where
  "truthy JUndefined = False"
| "truthy JNull = False"
| "truthy (JBool b) = b"
| "truthy (JNum n) = (n \<noteq> 0)"
| "truthy (JStr s) = (s \<noteq> [])"
| "truthy (JArr xs) = True"
| "truthy (JObj obj) = True"

text \<open>A value inside a template literal \<^verbatim>\<open>`${v}`\<close>.\<close>

fun js_template :: "decls \<Rightarrow> jsval \<Rightarrow> string" where
  "js_template D (JStr s) = s"
| "js_template D JUndefined = ''undefined''"
| "js_template D JNull = ''null''"
| "js_template D (JBool b) = (if b then ''true'' else ''false'')"
| "js_template D v = ToString D v"

definition R_assoc :: "string \<Rightarrow> jsval \<Rightarrow> js_object \<Rightarrow> js_object" where
  "R_assoc k v obj = AList.update k v obj"

definition R_dissoc :: "string \<Rightarrow> js_object \<Rightarrow> js_object" where
  "R_dissoc k obj = AList.delete k obj"

definition R_mergeAll :: "js_object list \<Rightarrow> js_object" where
  "R_mergeAll objs = foldl AList.merge [] objs"

section \<open>Engine queries and their meaning on a document\<close>

datatype es_query =
    Exists string
  | Match string string
  | Bool_q "es_query list" "es_query list" "es_query list" "nat option"
  | Leaf jsval

text \<open>
  \<open>Bool_q must must_not should minimum_should_match\<close> is the object
  \<^verbatim>\<open>{ bool: { must, must_not, should, minimum_should_match } }\<close>; an absent key is the
  empty list, respectively \<open>None\<close>. \<open>Leaf\<close> is any other clause (term, match_phrase,
  range, query_string, nested, multi_match), kept as its JSON.

  The backing engine is an external dependency, which the specification describes as
  "offering boolean query composition (must/must-not/should with minimum-match
  thresholds)". Its reading of a query is modelled as follows. A document is seen through
  the values the engine resolves for a field name, and through which of the other clauses
  it satisfies; an \<^verbatim>\<open>exists\<close> clause holds when there is at least one value, a
  \<^verbatim>\<open>match\<close> clause when the value is one of them. Without an explicit threshold a
  \<^verbatim>\<open>should\<close> list is binding (one clause at least) only in a bool query with no
  \<^verbatim>\<open>must\<close> clause.
\<close>

record es_doc =
  field_values :: "string \<Rightarrow> string list"
  leaf_holds :: "jsval \<Rightarrow> bool"

fun matches :: "es_doc \<Rightarrow> es_query \<Rightarrow> bool" where
  "matches d (Exists f) = (field_values d f \<noteq> [])"
| "matches d (Match f v) = (v \<in> set (field_values d f))"
| "matches d (Leaf j) = leaf_holds d j"
| "matches d (Bool_q m mn s msm) =
     ((\<forall>q \<in> set m. matches d q) \<and> (\<forall>q \<in> set mn. \<not> matches d q) \<and>
      (case msm of
         Some k \<Rightarrow> k \<le> length (filter (matches d) s)
       | None \<Rightarrow> (m = [] \<and> s \<noteq> [] \<longrightarrow> 1 \<le> length (filter (matches d) s))))"

record fragments =
  must :: "es_query list"
  must_not :: "es_query list"

text \<open>
  Every reader puts the fragments into its own bool query:
  \<^verbatim>\<open>bool: { must: [..., ...markingRestrictions.must], must_not: markingRestrictions.must_not }\<close>.
  \<open>passes d fr\<close> is what the two fragments alone demand of a document.
\<close>

definition passes :: "es_doc \<Rightarrow> fragments \<Rightarrow> bool" where
  "passes d fr = matches d (Bool_q (must fr) (must_not fr) [] None)"

section \<open>Users and markings\<close>

record marking =
  marking_internal_id :: string
  definition_type :: string

text \<open>
  \<open>capabilities\<close> holds the \<^verbatim>\<open>name\<close> of each capability; \<open>None\<close> is a user
  object without the property (the code reads \<^verbatim>\<open>user.capabilities || []\<close>).
\<close>

record user =
  capabilities :: "string list option"
  allowed_marking :: "marking list"
  all_marking :: "marking list"

text \<open>\<^verbatim>\<open>R.find((s) => s.name === BYPASS, user.capabilities || []) !== undefined\<close>\<close>

definition isBypass :: "decls \<Rightarrow> user \<Rightarrow> bool" where
  "isBypass D u =
     (List.find (\<lambda>s. s = BYPASS D) (case capabilities u of None \<Rightarrow> [] | Some cs \<Rightarrow> cs) \<noteq> None)"

text \<open>\<^verbatim>\<open>R.uniq\<close> keeps the first occurrence of each value.\<close>

definition R_uniq :: "'a list \<Rightarrow> 'a list" where
  "R_uniq xs = rev (remdups (rev xs))"

text \<open>The string-named members of \<^verbatim>\<open>Object.prototype\<close>, which every plain object
  inherits.\<close>

definition Object_prototype_members :: "string list" where
  "Object_prototype_members =
     [''constructor'', ''hasOwnProperty'', ''isPrototypeOf'', ''propertyIsEnumerable'',
      ''toString'', ''toLocaleString'', ''valueOf'', ''__proto__'', ''__defineGetter__'',
      ''__defineSetter__'', ''__lookupGetter__'', ''__lookupSetter__'']"

text \<open>
  The plain object that \<^verbatim>\<open>R.groupBy\<close> builds, starting from \<^verbatim>\<open>{}\<close> and assigning
  \<^verbatim>\<open>acc[key] = items\<close>. Every group name becomes an own key holding the items of the
  group in their order (keys in order of first appearance here; the order in which
  JavaScript lists them is not used). The name \<^verbatim>\<open>__proto__\<close> is the exception: assigning
  it creates no own key but replaces the prototype of the object by the assigned array,
  which holds the last item of that group alone. \<open>proto_array\<close> is that array, \<open>None\<close>
  while the prototype is still \<^verbatim>\<open>Object.prototype\<close>.
\<close>

record 'a grouped =
  own_groups :: "(string \<times> 'a list) list"
  proto_array :: "'a list option"

definition R_groupBy :: "('a \<Rightarrow> string) \<Rightarrow> 'a list \<Rightarrow> 'a grouped" where
  "R_groupBy f xs =
     \<lparr>own_groups = map (\<lambda>k. (k, filter (\<lambda>x. f x = k) xs))
                      (filter (\<lambda>k. k \<noteq> ''__proto__'') (R_uniq (map f xs))),
      proto_array = (case filter (\<lambda>x. f x = ''__proto__'') xs of
                       [] \<Rightarrow> None
                     | y # ys \<Rightarrow> Some [last (y # ys)])\<rparr>"

definition Object_keys :: "'a grouped \<Rightarrow> string list" where
  "Object_keys obj = map fst (own_groups obj)"

text \<open>
  Reading \<^verbatim>\<open>obj[key]\<close> on such an object: an own key gives its array; otherwise the
  prototype chain answers. With the prototype replaced by an array, \<^verbatim>\<open>__proto__\<close> gives
  that array, and \<^verbatim>\<open>0\<close>, \<^verbatim>\<open>length\<close> and the members of \<^verbatim>\<open>Array.prototype\<close>
  and \<^verbatim>\<open>Object.prototype\<close> give an item, a number or a function; with the prototype
  untouched, the members of \<^verbatim>\<open>Object.prototype\<close> give a function or an object. All
  these inherited values are truthy and none but the array has a \<^verbatim>\<open>map\<close> method.
  Any other name gives \<^verbatim>\<open>undefined\<close>.
\<close>

datatype 'a js_read = Read_array "'a list" | Read_other | Read_undefined

definition read_group :: "decls \<Rightarrow> 'a grouped \<Rightarrow> string \<Rightarrow> 'a js_read" where
  "read_group D obj k =
     (case map_of (own_groups obj) k of
        Some xs \<Rightarrow> Read_array xs
      | None \<Rightarrow>
          (case proto_array obj of
             Some arr \<Rightarrow>
               if k = ''__proto__'' then Read_array arr
               else if k = ''0'' \<or> k = ''length'' \<or> k \<in> set (Array_prototype_members D)
                       \<or> k \<in> set Object_prototype_members
               then Read_other else Read_undefined
           | None \<Rightarrow> if k \<in> set Object_prototype_members then Read_other else Read_undefined))"

section \<open>Access filter builder\<close>

text \<open>
  The first loop of \<^verbatim>\<open>buildMarkingRestriction\<close>, over
  \<^verbatim>\<open>Object.keys(allGroupedMarkings)\<close>: for each marking group of the universe, the ids
  of the group the user has no access to, kept when there is one.
  \<^verbatim>\<open>allGroupedMarkings[markingGroup].map(...)\<close> and
  \<^verbatim>\<open>(userGroupedMarkings[markingGroup] || []).map(...)\<close> throw a TypeError when what is
  read has no \<^verbatim>\<open>map\<close> method.
\<close>

fun markingGroups_loop ::
  "decls \<Rightarrow> marking grouped \<Rightarrow> marking grouped \<Rightarrow> string list \<Rightarrow> failure + string list list" where
  "markingGroups_loop D userGroupedMarkings allGroupedMarkings [] = Inr []"
| "markingGroups_loop D userGroupedMarkings allGroupedMarkings (markingGroup # markingGroups) =
     (case read_group D allGroupedMarkings markingGroup of
        Read_array ms \<Rightarrow>
          (case (case read_group D userGroupedMarkings markingGroup of
                   Read_array us \<Rightarrow> Inr us
                 | Read_undefined \<Rightarrow> Inr []
                 | Read_other \<Rightarrow> Inl (TypeError ''(userGroupedMarkings[markingGroup] || []).map is not a function'')) of
             Inl e \<Rightarrow> Inl e
           | Inr us \<Rightarrow>
               let markingsForGroup = map marking_internal_id ms;
                   userMarkingsForGroup = map marking_internal_id us;
                   res = filter (\<lambda>m. m \<notin> set userMarkingsForGroup) markingsForGroup
               in case markingGroups_loop D userGroupedMarkings allGroupedMarkings markingGroups of
                    Inl e \<Rightarrow> Inl e
                  | Inr others \<Rightarrow> Inr ((if length res > 0 then [res] else []) @ others))
      | _ \<Rightarrow> Inl (TypeError ''allGroupedMarkings[markingGroup].map is not a function''))"

definition mustNotHaveOneOf :: "decls \<Rightarrow> user \<Rightarrow> failure + string list list" where
  "mustNotHaveOneOf D u =
     (let userGroupedMarkings = R_groupBy definition_type (allowed_marking u);
          allGroupedMarkings = R_groupBy definition_type (all_marking u);
          markingGroups = Object_keys allGroupedMarkings
      in markingGroups_loop D userGroupedMarkings allGroupedMarkings markingGroups)"

definition buildMarkingRestriction :: "decls \<Rightarrow> user \<Rightarrow> failure + fragments" where
  "buildMarkingRestriction D u =
     (if \<not> isBypass D u then
        if length (allowed_marking u) = 0 then
          Inr \<lparr>must = [],
               must_not = [Exists (buildRefRelationKey D (RELATION_OBJECT_MARKING D))]\<rparr>
        else
          case mustNotHaveOneOf D u of
            Inl e \<Rightarrow> Inl e
          | Inr groups \<Rightarrow>
              let mustNotMarkingTerms = map (\<lambda>markings.
                      Bool_q [] []
                        (map (\<lambda>m. Match (buildRefRelationSearchKey D
                                            (JStr (RELATION_OBJECT_MARKING D))) m)
                           markings)
                        (Some 1)) groups;
                  markingBool =
                    Bool_q [] []
                      [Bool_q []
                         [Exists (buildRefRelationSearchKey D (JStr (RELATION_OBJECT_MARKING D)))]
                         [] None,
                       Bool_q [] mustNotMarkingTerms [] None]
                      (Some 1)
              in Inr \<lparr>must = [markingBool], must_not = []\<rparr>
      else Inr \<lparr>must = [], must_not = []\<rparr>)"

text \<open>
  The specification's words, for comparison with the code: a forbidden marking is a marking of
  the universe (\<open>all_marking\<close>) that the user lacks in its marking-definition group,
  that is, whose id is not the id of an allowed marking of the same definition type.
\<close>

definition forbidden_markings :: "user \<Rightarrow> string list" where
  "forbidden_markings u =
     map marking_internal_id
       (filter (\<lambda>m. marking_internal_id m \<notin>
                  set (map marking_internal_id
                         (filter (\<lambda>a. definition_type a = definition_type m) (allowed_marking u))))
          (all_marking u))"


section \<open>Relation projection codec\<close>

text \<open>\<^verbatim>\<open>R.head\<close>: the first element of an array (\<^verbatim>\<open>undefined\<close> when empty), the first
  character of a string; it reads index 0 of anything else and throws on
  \<^verbatim>\<open>undefined\<close> and \<^verbatim>\<open>null\<close>.\<close>

fun R_head :: "jsval \<Rightarrow> failure + jsval" where
  "R_head (JArr []) = Inr JUndefined"
| "R_head (JArr (x # xs)) = Inr x"
| "R_head (JStr s) = Inr (JStr (take 1 s))"
| "R_head (JObj obj) = Inr (js_get obj ''0'')"
| "R_head JUndefined = Inl (TypeError ''Cannot read property 0 of undefined'')"
| "R_head JNull = Inl (TypeError ''Cannot read property 0 of null'')"
| "R_head _ = Inr JUndefined"

definition elBuildRelation :: "string \<Rightarrow> jsval \<Rightarrow> failure + js_object" where
  "elBuildRelation type connection =
     (case R_head (js_prop connection ''types'') of
        Inl e \<Rightarrow> Inl e
      | Inr t \<Rightarrow> Inr [(type, JNull),
                     (type @ ''Id'', js_prop connection ''internal_id''),
                     (type @ ''Role'', js_prop connection ''role''),
                     (type @ ''Type'', t)])"

text \<open>The two connections are what \<^verbatim>\<open>R.find\<close> returned: \<open>None\<close> is
  \<^verbatim>\<open>undefined\<close>.\<close>

definition elMergeRelation ::
  "decls \<Rightarrow> js_object \<Rightarrow> jsval option \<Rightarrow> jsval option \<Rightarrow> failure + js_object" where
  "elMergeRelation D concept fromConnection toConnection =
     (case (fromConnection, toConnection) of
        (Some fc, Some tc) \<Rightarrow>
          (if \<not> truthy fc \<or> \<not> truthy tc then
             Inl (AppError DatabaseError ''[ELASTIC] Something fail in reconstruction of the relation'')
           else
             case elBuildRelation ''from'' fc of
               Inl e \<Rightarrow> Inl e
             | Inr from0 \<Rightarrow>
                 let from = R_assoc ''source_ref''
                       (JStr (convertEntityTypeToStixType D (js_get from0 ''fromType'') @ ''--temporary''))
                       from0
                 in case elBuildRelation ''to'' tc of
                      Inl e \<Rightarrow> Inl e
                    | Inr to0 \<Rightarrow>
                        let to = R_assoc ''target_ref''
                              (JStr (convertEntityTypeToStixType D (js_get to0 ''toType'') @ ''--temporary''))
                              to0
                        in Inr (R_mergeAll [concept, from, to]))
      | _ \<Rightarrow> Inl (AppError DatabaseError ''[ELASTIC] Something fail in reconstruction of the relation''))"

text \<open>
  \<^verbatim>\<open>R.find((connection) => connection.role === role, connections)\<close>. Reading
  \<^verbatim>\<open>.role\<close> of an \<^verbatim>\<open>undefined\<close> or \<^verbatim>\<open>null\<close> entry throws, as does searching
  in \<^verbatim>\<open>undefined\<close> or \<^verbatim>\<open>null\<close>; searching in any other value that is not an array
  finds nothing.
\<close>

fun find_role :: "string \<Rightarrow> jsval list \<Rightarrow> failure + jsval option" where
  "find_role role [] = Inr None"
| "find_role role (c # cs) =
     (if c = JUndefined \<or> c = JNull then Inl (TypeError ''Cannot read property role'')
      else if js_prop c ''role'' = JStr role then Inr (Some c)
      else find_role role cs)"

fun R_find_role :: "string \<Rightarrow> jsval \<Rightarrow> failure + jsval option" where
  "R_find_role role (JArr cs) = find_role role cs"
| "R_find_role role JUndefined = Inl (TypeError ''Cannot read property length of undefined'')"
| "R_find_role role JNull = Inl (TypeError ''Cannot read property length of null'')"
| "R_find_role role _ = Inr None"

definition elRebuildRelation :: "decls \<Rightarrow> js_object \<Rightarrow> failure + js_object" where
  "elRebuildRelation D concept =
     (if js_get concept ''base_type'' = JStr (BASE_TYPE_RELATION D) then
        let connections = js_get concept ''connections'';
            entityType = js_get concept ''entity_type''
        in case R_find_role (js_template D entityType @ ''_from'') connections of
             Inl e \<Rightarrow> Inl e
           | Inr fromConnection \<Rightarrow>
               (case R_find_role (js_template D entityType @ ''_to'') connections of
                  Inl e \<Rightarrow> Inl e
                | Inr toConnection \<Rightarrow>
                    (case elMergeRelation D concept fromConnection toConnection of
                       Inl e \<Rightarrow> Inl e
                     | Inr relation0 \<Rightarrow>
                         let relation = R_assoc ''relationship_type''
                               (js_get relation0 ''entity_type'') relation0
                         in Inr (R_dissoc ''connections'' relation)))
      else Inr concept)"

definition prepareRelation :: "decls \<Rightarrow> js_object \<Rightarrow> failure + js_object" where
  "prepareRelation D thing =
     (if js_get thing ''fromRole'' = JUndefined \<or> js_get thing ''toRole'' = JUndefined then
        Inl (AppError DatabaseError
          ''[ELASTIC] Cant index relation ${thing.internal_id} connections without from or to'')
      else if \<not> truthy (js_get thing ''from'') \<or> \<not> truthy (js_get thing ''to'') then
        Inl (AppError DatabaseError
          ''[ELASTIC] Cant index relation ${thing.internal_id}, error resolving dependency IDs'')
      else
        let from = js_get thing ''from'';
            to = js_get thing ''to'';
            connections =
              [JObj [(''internal_id'', js_prop from ''internal_id''),
                     (''name'', js_prop from ''name''),
                     (''types'', JArr (js_prop from ''entity_type''
                                        # getParentTypes D (js_prop from ''entity_type''))),
                     (''role'', js_get thing ''fromRole'')],
               JObj [(''internal_id'', js_prop to ''internal_id''),
                     (''name'', js_prop to ''name''),
                     (''types'', JArr (js_prop to ''entity_type''
                                        # getParentTypes D (js_prop to ''entity_type''))),
                     (''role'', js_get thing ''toRole'')]]
        in Inr (R_dissoc ''toRole''
               (R_dissoc ''toId''
               (R_dissoc ''to''
               (R_dissoc ''fromRole''
               (R_dissoc ''fromId''
               (R_dissoc ''from''
               (R_dissoc (INTERNAL_FROM_FIELD D)
               (R_dissoc (INTERNAL_TO_FIELD D)
               (R_assoc ''connections'' (JArr connections) thing))))))))))"

text \<open>Decode(Encode(relationship)), and one field of its result.\<close>

definition decode_encode :: "decls \<Rightarrow> js_object \<Rightarrow> failure + js_object" where
  "decode_encode D thing =
     (case prepareRelation D thing of Inl e \<Rightarrow> Inl e | Inr doc \<Rightarrow> elRebuildRelation D doc)"

definition decoded_field :: "decls \<Rightarrow> js_object \<Rightarrow> string \<Rightarrow> failure + jsval" where
  "decoded_field D thing k =
     (case decode_encode D thing of Inl e \<Rightarrow> Inl e | Inr rel \<Rightarrow> Inr (js_get rel k))"

fun result_class :: "failure + 'a \<Rightarrow> error_class option" where
  "result_class (Inl e) = failure_class e"
| "result_class (Inr v) = None"

section \<open>Elements, the engine and the trace of calls\<close>

record es_hit =
  hit_index :: string
  hit_source :: js_object
  hit_sort :: jsval

text \<open>
  A search request: the bool query is \<^verbatim>\<open>{ must, must_not }\<close>; \<open>req_aggs\<close> is the
  date histogram (field, calendar interval, format). The constant keys
  (\<^verbatim>\<open>_source_excludes\<close>, \<^verbatim>\<open>ignore_throttled\<close>, \<^verbatim>\<open>track_total_hits\<close>) are left out.
\<close>

record search_request =
  req_index :: string
  req_size :: "int option"
  req_sort :: jsval
  req_must :: "es_query list"
  req_must_not :: "es_query list"
  req_search_after :: "jsval option"
  req_aggs :: "(string \<times> jsval \<times> string) option"

record search_response =
  hits :: "es_hit list"
  total :: int
  buckets :: "(string \<times> int) list"

text \<open>The script of a cleanup update:
  \<^verbatim>\<open>if (ctx._source[field] != null) ctx._source[field].removeIf(rel -> rel == params.key)\<close>.\<close>

datatype bulk_item =
    BulkDelete string string
  | BulkUpdateRemoveIf string "string option" string "string option"

text \<open>
  \<open>BulkDelete index id\<close>; \<open>BulkUpdateRemoveIf index id field key\<close>. Every call to a
  collaborator is recorded in order; \<^verbatim>\<open>logApp.debug\<close> lines are not.
\<close>

datatype call =
    Search search_request
  | Bulk "bulk_item list"
  | CacheGet "string option list"
  | CacheSet "element list"
  | CacheDel "element list"
  | StixLoadById string
  | LogError string

text \<open>
  What the collaborators answer. \<open>el_bulk\<close> is true when the bulk call succeeds with no
  failed item. \<open>elList_relations u ids\<close> is what \<^verbatim>\<open>elList\<close> returns for the listing of
  \<^verbatim>\<open>getRelatedRelations\<close>: the elements of the relationship indices with a connection
  to one of \<open>ids\<close>, among those the user may read. \<open>elDataConverter\<close> turns a raw hit
  into the element (it throws when a relationship cannot be rebuilt). \<open>paginate_clauses\<close>
  is the part of \<^verbatim>\<open>elPaginate\<close> after the clause for the ids, which extends
  \<^verbatim>\<open>must\<close> and \<^verbatim>\<open>mustnot\<close> by the clauses for types, filters and search and chooses
  the ordering. It makes no call to the engine, the cache or the log; it reads the imported
  \<^verbatim>\<open>dateAttributes\<close>, \<^verbatim>\<open>numericOrBooleanAttributes\<close> and
  \<^verbatim>\<open>specialElasticCharsEscape\<close>, and it throws a TypeError on options it cannot read
  (a filter value that is \<^verbatim>\<open>undefined\<close>, on which it calls \<^verbatim>\<open>toString\<close>, for
  one). A listing or a loader that fails is not modelled.
\<close>

record world =
  el_search :: "search_request \<Rightarrow> es_error + search_response"
  el_bulk :: "bulk_item list \<Rightarrow> bool"
  elDataConverter :: "es_hit \<Rightarrow> failure + element"
  cacheGet :: "string option list \<Rightarrow> (string \<times> element option) list option"
  elList_relations :: "user \<Rightarrow> string list \<Rightarrow> element list"
  stixLoadById :: "user \<Rightarrow> string \<Rightarrow> element"
  paginate_clauses :: "jsval \<Rightarrow> es_query list \<Rightarrow> es_query list \<Rightarrow>
                        failure + es_query list \<times> es_query list \<times> jsval"

fun convert_hits :: "world \<Rightarrow> es_hit list \<Rightarrow> failure + element list" where
  "convert_hits W [] = Inr []"
| "convert_hits W (h # hs) =
     (case elDataConverter W h of
        Inl e \<Rightarrow> Inl e
      | Inr n \<Rightarrow> (case convert_hits W hs of Inl e \<Rightarrow> Inl e | Inr ns \<Rightarrow> Inr (n # ns)))"

section \<open>Pagination\<close>

text \<open>The option \<^verbatim>\<open>first\<close>: left out, \<^verbatim>\<open>null\<close>, or a number.\<close>

datatype js_int = Undefined | Null | Num int

text \<open>The option \<^verbatim>\<open>ids\<close>: left out, \<^verbatim>\<open>null\<close>, or an array.\<close>

datatype js_ids = Ids_omitted | Ids_null | Ids "jsval list"

text \<open>
  \<open>option_ids\<close> is the option \<^verbatim>\<open>ids\<close>. \<open>criteria\<close> stands for the options only the rest of the clause construction reads
  (types, filters, filterMode, search, orderBy, orderMode); \<open>connectionFormat\<close> is the
  value after its default.
\<close>

record paginate_options =
  option_ids :: js_ids
  first :: js_int
  after :: "string option"
  connectionFormat :: bool
  criteria :: jsval

text \<open>
  \<open>Connection first searchAfter nodes total\<close> is what
  \<^verbatim>\<open>buildPagination(first, searchAfter, nodeHits, total)\<close> returns (every node goes with
  its own sort value).
\<close>

datatype paginate_result =
    Connection js_int jsval "element list" int
  | Elements "element list"

text \<open>\<^verbatim>\<open>const { first = 200 } = options\<close>: the default replaces \<^verbatim>\<open>undefined\<close> only.\<close>

definition first_or_default :: "paginate_options \<Rightarrow> js_int" where
  "first_or_default options = (case first options of Undefined \<Rightarrow> Num 200 | v \<Rightarrow> v)"

text \<open>\<^verbatim>\<open>const querySize = first || 10\<close>\<close>

definition querySize :: "paginate_options \<Rightarrow> int" where
  "querySize options =
     (case first_or_default options of Num n \<Rightarrow> (if n \<noteq> 0 then n else 10) | _ \<Rightarrow> 10)"

text \<open>\<^verbatim>\<open>const searchAfter = after ? cursorToOffset(after) : undefined\<close>\<close>

definition searchAfter :: "decls \<Rightarrow> paginate_options \<Rightarrow> failure + jsval" where
  "searchAfter D options =
     (case after options of
        Some a \<Rightarrow> (if a \<noteq> [] then cursorToOffset D a else Inr JUndefined)
      | None \<Rightarrow> Inr JUndefined)"

text \<open>
  The clause for the ids: the default \<^verbatim>\<open>ids = []\<close> replaces \<^verbatim>\<open>undefined\<close> only, so
  \<^verbatim>\<open>ids.length\<close> throws on \<^verbatim>\<open>null\<close>.
\<close>

definition ids_clause :: "decls \<Rightarrow> js_ids \<Rightarrow> es_query list \<Rightarrow> failure + es_query list" where
  "ids_clause D i clauses =
     (case i of
        Ids_omitted \<Rightarrow> Inr clauses
      | Ids_null \<Rightarrow> Inl (TypeError ''Cannot read property length of null'')
      | Ids xs \<Rightarrow>
          if length xs > 0 then
            let elementTypes = [ID_INTERNAL D, ID_STANDARD D, IDS_STIX D];
                idsTermsPerType = concat (map (\<lambda>x. map (\<lambda>elementType.
                    Leaf (JObj [(''term'', JObj [(elementType @ ''.keyword'', x)])]))
                    elementTypes) xs)
            in Inr (clauses @ [Bool_q [] [] idsTermsPerType (Some 1)])
          else Inr clauses)"

text \<open>
  The clauses and the ordering, in the order of the code: the access filter, the ids,
  then the rest.
\<close>

definition paginate_must ::
  "decls \<Rightarrow> world \<Rightarrow> user \<Rightarrow> paginate_options \<Rightarrow>
   failure + es_query list \<times> es_query list \<times> jsval" where
  "paginate_must D W u options =
     (case buildMarkingRestriction D u of
        Inl e \<Rightarrow> Inl e
      | Inr markingRestrictions \<Rightarrow>
          (case ids_clause D (option_ids options) (must markingRestrictions) of
             Inl e \<Rightarrow> Inl e
           | Inr must1 \<Rightarrow>
               paginate_clauses W (criteria options) must1 (must_not markingRestrictions)))"

definition paginate_request ::
  "string \<Rightarrow> paginate_options \<Rightarrow> jsval \<Rightarrow> es_query list \<times> es_query list \<times> jsval \<Rightarrow>
   search_request" where
  "paginate_request indexName options sa clauses =
     (case clauses of (musts, mustnots, sorting) \<Rightarrow>
        \<lparr>req_index = indexName,
         req_size = Some (querySize options),
         req_sort = sorting,
         req_must = musts,
         req_must_not = mustnots,
         req_search_after = (if truthy sa then Some sa else None),
         req_aggs = None\<rparr>)"

text \<open>
  Everything \<^verbatim>\<open>elPaginate\<close> does before the size check: decoding the cursor, building
  the clauses and the body. Any of the first two may throw.
\<close>

definition paginate_query ::
  "decls \<Rightarrow> world \<Rightarrow> user \<Rightarrow> string \<Rightarrow> paginate_options \<Rightarrow> failure + search_request" where
  "paginate_query D W u indexName options =
     (case searchAfter D options of
        Inl e \<Rightarrow> Inl e
      | Inr sa \<Rightarrow>
          (case paginate_must D W u options of
             Inl e \<Rightarrow> Inl e
           | Inr clauses \<Rightarrow> Inr (paginate_request indexName options sa clauses)))"

text \<open>\<^verbatim>\<open>R.includes(part, reason)\<close> on strings.\<close>

definition invalidMappingCause :: "string \<Rightarrow> bool" where
  "invalidMappingCause r = (sublist ''No mapping found for'' r \<or> sublist ''no such index'' r)"

definition empty_result :: "bool \<Rightarrow> paginate_result" where
  "empty_result cf = (if cf then Connection (Num 0) JNull [] 0 else Elements [])"

text \<open>
  The \<^verbatim>\<open>.catch\<close> handler of the search promise. It receives what the search or the
  conversion of the hits threw; an error without \<^verbatim>\<open>meta.body.error.root_cause\<close> makes
  the handler itself throw a TypeError.
\<close>

definition paginate_catch ::
  "search_request \<Rightarrow> bool \<Rightarrow> failure \<Rightarrow> call list \<times> (failure + paginate_result)" where
  "paginate_catch query cf err =
     (case err of
        EngineFailure e \<Rightarrow>
          (case root_cause e of
             None \<Rightarrow> ([Search query], Inl (TypeError ''Cannot read property of undefined''))
           | Some causes \<Rightarrow>
               let numberOfCauses = length causes;
                   invalidMappingCauses = filter invalidMappingCause causes
               in if numberOfCauses > length invalidMappingCauses then
                    ([Search query, LogError ''[ELASTICSEARCH] Paginate fail''], Inl err)
                  else ([Search query], Inr (empty_result cf)))
      | _ \<Rightarrow> ([Search query], Inl (TypeError ''Cannot read property of undefined'')))"

definition elPaginate ::
  "decls \<Rightarrow> world \<Rightarrow> user \<Rightarrow> string \<Rightarrow> paginate_options \<Rightarrow>
   call list \<times> (failure + paginate_result)" where
  "elPaginate D W u indexName options =
     (case searchAfter D options of
        Inl e \<Rightarrow> ([], Inl e)
      | Inr sa \<Rightarrow>
          (case paginate_must D W u options of
             Inl e \<Rightarrow> ([], Inl e)
           | Inr clauses \<Rightarrow>
               let query = paginate_request indexName options sa clauses in
               if querySize options > ES_MAX_PAGINATION D then
                 ([], Inl (AppError DatabaseError
                    ''You cannot ask for more than ${ES_MAX_PAGINATION} results. If you need more, please use pagination''))
               else
                 case el_search W query of
                   Inr data \<Rightarrow>
                     (case convert_hits W (hits data) of
                        Inr convertedHits \<Rightarrow>
                          ([Search query],
                           Inr (if connectionFormat options then
                                  Connection (first_or_default options) sa
                                    convertedHits (total data)
                                else Elements convertedHits))
                      | Inl e \<Rightarrow> paginate_catch query (connectionFormat options) e)
                 | Inl err \<Rightarrow>
                     paginate_catch query (connectionFormat options) (EngineFailure err)))"

section \<open>Date histogram\<close>

text \<open>A destructuring default \<^verbatim>\<open>{ x = d }\<close> replaces \<^verbatim>\<open>undefined\<close> only.\<close>

fun js_default :: "jsval \<Rightarrow> jsval \<Rightarrow> jsval" where
  "js_default JUndefined d = d"
| "js_default v d = v"

text \<open>
  The function mapped over \<^verbatim>\<open>filters\<close>: destructuring throws on \<^verbatim>\<open>undefined\<close> and
  \<^verbatim>\<open>null\<close>, and \<^verbatim>\<open>filterType.split('.')\<close> on anything but a string.
\<close>

definition histogram_filter :: "decls \<Rightarrow> jsval \<Rightarrow> failure + es_query" where
  "histogram_filter D f =
     (if f = JUndefined \<or> f = JNull then
        Inl (TypeError ''Cannot destructure property isRelation of f'')
      else
        let isRelation = js_default (js_prop f ''isRelation'') (JBool False);
            isNested = js_default (js_prop f ''isNested'') (JBool False);
            filterType = js_prop f ''type'';
            value = js_prop f ''value'';
            operator = js_default (js_prop f ''operator'') (JStr ''eq'')
        in if truthy isNested then
             (case filterType of
                JStr s \<Rightarrow>
                  Inr (Leaf (JObj [(''nested'', JObj
                    [(''path'', JStr (takeWhile (\<lambda>c. c \<noteq> CHR ''.'') s)),
                     (''query'', JObj [(''bool'', JObj [(''must'', JArr
                        [JObj [(''match_phrase'', JObj [(s, value)])]])])])])]))
              | _ \<Rightarrow> Inl (TypeError ''filterType.split is not a function''))
           else
             let key0 = js_template D filterType @ ''.keyword'';
                 key1 = (if operator = JStr ''wilcard'' then js_template D filterType else key0);
                 key = (if truthy isRelation
                        then buildRefRelationSearchKey D
                               (if truthy filterType then filterType else JStr ''*'')
                        else key1)
             in Inr (Leaf (JObj [(''multi_match'', JObj
                  [(''fields'', JArr [JStr key]), (''type'', JStr ''phrase''),
                   (''query'', value)])])))"

fun map_filters :: "decls \<Rightarrow> jsval list \<Rightarrow> failure + es_query list" where
  "map_filters D [] = Inr []"
| "map_filters D (f # fs) =
     (case histogram_filter D f of
        Inl e \<Rightarrow> Inl e
      | Inr q \<Rightarrow> (case map_filters D fs of Inl e \<Rightarrow> Inl e | Inr qs \<Rightarrow> Inr (q # qs)))"

text \<open>
  \<^verbatim>\<open>const histogramFilters = R.map(..., filters)\<close>, the first statement of
  \<^verbatim>\<open>elHistogramCount\<close>. \<open>filters\<close>
  is an array, or \<open>None\<close> for \<^verbatim>\<open>undefined\<close> or \<^verbatim>\<open>null\<close>, which \<^verbatim>\<open>R.map\<close> cannot
  read.
\<close>

definition histogramFilters :: "decls \<Rightarrow> jsval list option \<Rightarrow> failure + es_query list" where
  "histogramFilters D filters =
     (case filters of
        None \<Rightarrow> Inl (TypeError ''Cannot read property map of undefined'')
      | Some fs \<Rightarrow> map_filters D fs)"

text \<open>The \<^verbatim>\<open>switch (interval)\<close>: \<open>None\<close> is the \<^verbatim>\<open>default\<close> branch, which throws.\<close>

definition dateFormat :: "jsval \<Rightarrow> string option" where
  "dateFormat interval =
     (if interval = JStr ''year'' then Some ''yyyy''
      else if interval = JStr ''month'' then Some ''yyyy-MM''
      else if interval = JStr ''day'' then Some ''yyyy-MM-dd''
      else None)"

text \<open>The filters built after the switch; \<open>toTypes\<close> is an array here.\<close>

definition baseFilters :: "jsval \<Rightarrow> string \<Rightarrow> jsval \<Rightarrow> jsval \<Rightarrow> jsval list \<Rightarrow> es_query list" where
  "baseFilters type field start end toTypes =
     [Leaf (JObj [(''range'', JObj [(field, JObj [(''gte'', start), (''lte'', end)])])])]
     @ (if truthy type then
          [Bool_q [] []
             [Leaf (JObj [(''match_phrase'', JObj [(''entity_type.keyword'', type)])]),
              Leaf (JObj [(''match_phrase'', JObj [(''parent_types.keyword'', type)])])]
             (Some 1)]
        else [])
     @ (if length toTypes > 0 then
          [Leaf (JObj [(''nested'', JObj
             [(''path'', JStr ''connections''),
              (''query'', JObj [(''bool'', JObj
                 [(''should'', JArr (map (\<lambda>t. JObj [(''match_phrase'',
                     JObj [(''connections.types.keyword'', t)])]) toTypes)),
                  (''minimum_should_match'', JNum 1)])])])])]
        else [])"

definition histogram_query ::
  "decls \<Rightarrow> fragments \<Rightarrow> es_query list \<Rightarrow> jsval \<Rightarrow> string \<Rightarrow> jsval \<Rightarrow> string \<Rightarrow> jsval \<Rightarrow> jsval \<Rightarrow>
   jsval list \<Rightarrow> search_request" where
  "histogram_query D markingRestrictions mapped type field interval fmt start end toTypes =
     \<lparr>req_index = READ_PLATFORM_INDICES D,
      req_size = None,
      req_sort = JUndefined,
      req_must = baseFilters type field start end toTypes @ mapped
                   @ must markingRestrictions,
      req_must_not = must_not markingRestrictions,
      req_search_after = None,
      req_aggs = Some (field, interval, fmt)\<rparr>"

text \<open>
  \<open>elHistogramCount\<close>, statement by statement: the filters are mapped, the interval is
  checked, the other filters are built (\<^verbatim>\<open>toTypes.length\<close> throws on \<open>None\<close>, which
  is \<^verbatim>\<open>undefined\<close> or \<^verbatim>\<open>null\<close>), the access filter is added, and the search is made;
  its failure goes to the caller as it is.
\<close>

definition elHistogramCount ::
  "decls \<Rightarrow> world \<Rightarrow> user \<Rightarrow> jsval \<Rightarrow> string \<Rightarrow> jsval \<Rightarrow> jsval \<Rightarrow> jsval \<Rightarrow>
   jsval list option \<Rightarrow> jsval list option \<Rightarrow> call list \<times> (failure + (string \<times> int) list)" where
  "elHistogramCount D W u type field interval start end toTypes filters =
     (case histogramFilters D filters of
        Inl e \<Rightarrow> ([], Inl e)
      | Inr mapped \<Rightarrow>
          (case dateFormat interval of
             None \<Rightarrow>
               ([], Inl (AppError FunctionalError
                  ''Unsupported interval, please choose between year, month or day''))
           | Some fmt \<Rightarrow>
               (case toTypes of
                  None \<Rightarrow> ([], Inl (TypeError ''Cannot read property length of undefined''))
                | Some tts \<Rightarrow>
                    (case buildMarkingRestriction D u of
                       Inl e \<Rightarrow> ([], Inl e)
                     | Inr markingRestrictions \<Rightarrow>
                         let query = histogram_query D markingRestrictions mapped type field
                                       interval fmt start end tts
                         in case el_search W query of
                              Inl err \<Rightarrow> ([Search query], Inl (EngineFailure err))
                            | Inr data \<Rightarrow> ([Search query], Inr (buckets data))))))"

section \<open>Cache-augmented lookup\<close>

definition MAX_SPLIT :: nat where
  "MAX_SPLIT = 250"

definition MAX_JS_PARAMS :: nat where
  "MAX_JS_PARAMS = 65536"

definition MAX_SEARCH_SIZE :: int where
  "MAX_SEARCH_SIZE = 5000"

text \<open>\<^verbatim>\<open>R.splitEvery(n, list)\<close> for a positive \<open>n\<close> (the two constants above).\<close>

function R_splitEvery :: "nat \<Rightarrow> 'a list \<Rightarrow> 'a list list" where
  "R_splitEvery n xs =
     (if n = 0 \<or> xs = [] then [] else take n xs # R_splitEvery n (drop n xs))"
  by pat_completeness auto
termination
  by (relation "measure (\<lambda>(n, xs). length xs)") auto

declare R_splitEvery.simps [simp del]

text \<open>
  An object keyed by ids is the list of its entries in insertion order; assigning an
  existing key keeps its place. \<open>js_assign a b\<close> is \<^verbatim>\<open>{ ...a, ...b }\<close>.
\<close>

definition js_assign :: "(string \<times> 'a) list \<Rightarrow> (string \<times> 'a) list \<Rightarrow> (string \<times> 'a) list" where
  "js_assign a b = foldl (\<lambda>acc (k, v). AList.update k v acc) a b"

text \<open>
  The predicate of \<^verbatim>\<open>R.filter\<close> in \<^verbatim>\<open>loadFromCache\<close>, on one cached value
  (\<open>None\<close> is \<^verbatim>\<open>null\<close>). \<open>type\<close> is the optional type argument.
\<close>

definition isUserHaveAccess :: "user \<Rightarrow> element \<Rightarrow> bool" where
  "isUserHaveAccess u instance =
     (let dataMarkings = (case object_marking_refs instance of None \<Rightarrow> [] | Some ms \<Rightarrow> ms);
          userMarkings = map marking_internal_id (allowed_marking u)
      in length dataMarkings = 0 \<or> list_all (\<lambda>m. m \<in> set userMarkings) dataMarkings)"

definition cache_filter :: "decls \<Rightarrow> user \<Rightarrow> string option \<Rightarrow> element option \<Rightarrow> bool" where
  "cache_filter D u type v =
     (case v of
        None \<Rightarrow> False
      | Some instance \<Rightarrow>
          if \<not> isBypass D u \<and> \<not> isUserHaveAccess u instance then False
          else
            let dataTypes = JStr (entity_type instance)
                              # getParentTypes D (JStr (entity_type instance))
            in \<not> ((case type of None \<Rightarrow> False | Some t \<Rightarrow> t \<noteq> [] \<and> JStr t \<notin> set dataTypes)))"

text \<open>\<open>loadFromCache\<close> returns \<^verbatim>\<open>{ cached, accessible }\<close>; its one call is the cache
  read. The ids are a list here (a single id is the list of that id).\<close>

definition loadFromCache ::
  "decls \<Rightarrow> world \<Rightarrow> user \<Rightarrow> string option list \<Rightarrow> string option \<Rightarrow>
   string list \<times> (string \<times> element) list" where
  "loadFromCache D W u ids type =
     (let data = cacheGet W ids;
          cachedValues = (case data of None \<Rightarrow> []
                          | Some d \<Rightarrow> filter (isNotEmptyField_element D) (map snd d));
          cached = concat (map (getInstanceIds D) cachedValues);
          accessible = filter (\<lambda>(k, v). cache_filter D u type v)
                         (case data of None \<Rightarrow> [] | Some d \<Rightarrow> d);
          uniqByInternal =
            foldl (\<lambda>acc (k, v). case v of Some i \<Rightarrow> AList.update (internal_id i) i acc
                                 | None \<Rightarrow> acc) [] accessible
      in (cached, uniqByInternal))"

record find_options =
  indices :: string
  toMap :: bool
  find_type :: "string option"

definition js_id :: "string option \<Rightarrow> jsval" where
  "js_id i = (case i of None \<Rightarrow> JUndefined | Some s \<Rightarrow> JStr s)"

text \<open>The query for one group of ids; building the access filter may throw.\<close>

definition find_query ::
  "decls \<Rightarrow> user \<Rightarrow> find_options \<Rightarrow> string option list \<Rightarrow> failure + search_request" where
  "find_query D u opts workingIds =
     (let elementTypes = [ID_INTERNAL D, ID_STANDARD D, IDS_STIX D]
             @ (if isStixObjectAliased D (find_type opts) then [INTERNAL_IDS_ALIASES D] else []);
          idsTermsPerType = concat (map (\<lambda>i. map (\<lambda>elementType.
              Leaf (JObj [(''term'', JObj [(elementType @ ''.keyword'', js_id i)])]))
              elementTypes) workingIds);
          should = Bool_q [] [] idsTermsPerType (Some 1);
          shouldType = (case find_type opts of
              None \<Rightarrow> []
            | Some t \<Rightarrow> if t = [] then [] else
                [Bool_q [] []
                   [Leaf (JObj [(''match_phrase'', JObj [(''entity_type.keyword'', JStr t)])]),
                    Leaf (JObj [(''match_phrase'', JObj [(''parent_types.keyword'', JStr t)])])]
                   (Some 1)])
      in case buildMarkingRestriction D u of
           Inl e \<Rightarrow> Inl e
         | Inr markingRestrictions \<Rightarrow>
             Inr \<lparr>req_index = indices opts,
                  req_size = Some MAX_SEARCH_SIZE,
                  req_sort = JUndefined,
                  req_must = [should] @ shouldType @ must markingRestrictions,
                  req_must_not = must_not markingRestrictions,
                  req_search_after = None,
                  req_aggs = None\<rparr>)"

text \<open>The loop over the groups of remaining ids; \<open>elasticHits\<close> is the object filled so
  far. A failed search is thrown as a DatabaseError, a failed conversion as it is.\<close>

fun find_groups ::
  "decls \<Rightarrow> world \<Rightarrow> user \<Rightarrow> find_options \<Rightarrow> string option list list \<Rightarrow>
   (string \<times> element) list \<Rightarrow> call list \<times> (failure + (string \<times> element) list)" where
  "find_groups D W u opts [] elasticHits = ([], Inr elasticHits)"
| "find_groups D W u opts (workingIds # groupIds) elasticHits =
     (case find_query D u opts workingIds of
        Inl e \<Rightarrow> ([], Inl e)
      | Inr query \<Rightarrow>
          (case el_search W query of
             Inl err \<Rightarrow> ([Search query], Inl (AppError DatabaseError ''Error loading ids''))
           | Inr data \<Rightarrow>
               (case convert_hits W (hits data) of
                  Inl e \<Rightarrow> ([Search query], Inl e)
                | Inr elements \<Rightarrow>
                    let elasticHits' = js_assign elasticHits
                                         (map (\<lambda>e. (internal_id e, e)) elements);
                        rest = find_groups D W u opts groupIds elasticHits'
                    in (Search query # CacheSet (map snd elasticHits') # fst rest, snd rest))))"

datatype find_result = AsMap "(string \<times> element) list" | AsList "element list"

fun Object_values :: "find_result \<Rightarrow> element list" where
  "Object_values (AsList es) = es"
| "Object_values (AsMap m) = map snd m"

text \<open>
  The part of \<open>elFindByIds\<close> between the cache read and the merge: the ids the cache
  does not hold are looked up in the index, and \<^verbatim>\<open>elasticHits\<close> is what was found.
\<close>

definition index_lookup ::
  "decls \<Rightarrow> world \<Rightarrow> user \<Rightarrow> string option list \<Rightarrow> find_options \<Rightarrow>
   call list \<times> (failure + (string \<times> element) list)" where
  "index_lookup D W u ids opts =
     (let processIds = filter (isNotEmptyField_id D) ids;
          cached = fst (loadFromCache D W u ids (find_type opts));
          remainingIds = filter (\<lambda>i. \<not> (case i of None \<Rightarrow> False | Some s \<Rightarrow> s \<in> set cached))
                           processIds
      in if length remainingIds > 0
         then find_groups D W u opts (R_splitEvery MAX_SPLIT remainingIds) []
         else ([], Inr []))"

definition elFindByIds ::
  "decls \<Rightarrow> world \<Rightarrow> user \<Rightarrow> string option list \<Rightarrow> find_options \<Rightarrow>
   call list \<times> (failure + find_result)" where
  "elFindByIds D W u ids opts =
     (let processIds = filter (isNotEmptyField_id D) ids in
      if length processIds = 0 then ([], Inr (if toMap opts then AsMap [] else AsList []))
      else
        let cacheHits = snd (loadFromCache D W u ids (find_type opts));
            searched = index_lookup D W u ids opts
        in case snd searched of
             Inl e \<Rightarrow> (CacheGet ids # fst searched, Inl e)
           | Inr elasticHits \<Rightarrow>
               let hits = js_assign cacheHits elasticHits
               in (CacheGet ids # fst searched,
                   Inr (if toMap opts then AsMap hits else AsList (map snd hits))))"

section \<open>Cascading deletion\<close>

text \<open>
  A JavaScript \<^verbatim>\<open>Map\<close>. \<^verbatim>\<open>set\<close> and \<^verbatim>\<open>has\<close> work on its entries. The bracket
  access \<^verbatim>\<open>cache[f]\<close> does not: it reads the property named \<open>f\<close> of the Map object,
  which has no own property (nothing ever assigns one) and inherits the members of
  \<^verbatim>\<open>Map.prototype\<close> and \<^verbatim>\<open>Object.prototype\<close>, all of them truthy but \<^verbatim>\<open>size\<close>,
  the number of entries.
\<close>

record js_Map =
  map_entries :: "(string \<times> string) list"

definition new_Map :: js_Map where
  "new_Map = \<lparr>map_entries = []\<rparr>"

definition Map_set :: "string \<Rightarrow> string \<Rightarrow> js_Map \<Rightarrow> js_Map" where
  "Map_set k v m = m\<lparr>map_entries := AList.update k v (map_entries m)\<rparr>"

definition Map_has :: "js_Map \<Rightarrow> string option \<Rightarrow> bool" where
  "Map_has m k = (case k of None \<Rightarrow> False | Some s \<Rightarrow> s \<in> set (map fst (map_entries m)))"

definition prototype_members :: "string list" where
  "prototype_members =
     [''constructor'', ''get'', ''set'', ''has'', ''delete'', ''clear'', ''entries'',
      ''forEach'', ''keys'', ''values'', ''hasOwnProperty'', ''isPrototypeOf'',
      ''propertyIsEnumerable'', ''toString'', ''toLocaleString'', ''valueOf'', ''__proto__'',
      ''__defineGetter__'', ''__defineSetter__'', ''__lookupGetter__'', ''__lookupSetter__'']"

definition Map_property_truthy :: "js_Map \<Rightarrow> string \<Rightarrow> bool" where
  "Map_property_truthy m f =
     (if f = ''size'' then map_entries m \<noteq> [] else f \<in> set prototype_members)"

text \<open>
  One turn of the loop over \<^verbatim>\<open>groupResults\<close>: the state is \<^verbatim>\<open>elements\<close>,
  \<^verbatim>\<open>foundRelations\<close> and \<^verbatim>\<open>cache\<close>.
\<close>

definition collect_group ::
  "nat \<Rightarrow> element list \<times> string list \<times> js_Map \<Rightarrow> element list \<Rightarrow>
   element list \<times> string list \<times> js_Map" where
  "collect_group lvl st subRels =
     (case st of (elements, foundRelations, cache) \<Rightarrow>
        let internalIds = map internal_id subRels;
            resolvedIds = filter (\<lambda>f. \<not> Map_property_truthy cache f) internalIds
        in (map (\<lambda>s. s\<lparr>level := Some lvl\<rparr>) subRels @ elements,
            foundRelations @ resolvedIds,
            fold (\<lambda>i. Map_set i '''') resolvedIds cache))"

definition collect_hits ::
  "world \<Rightarrow> user \<Rightarrow> string list \<Rightarrow> element list \<Rightarrow> nat \<Rightarrow> js_Map \<Rightarrow>
   element list \<times> string list \<times> js_Map" where
  "collect_hits W u targetIds elements lvl cache =
     (let hits = elList_relations W u targetIds;
          groupResults = R_splitEvery MAX_JS_PARAMS hits
      in foldl (collect_group lvl) (elements, [], cache) groupResults)"

text \<open>
  \<open>getRelatedRelations_groups W u groups elements lvl cache\<close> is
  \<^verbatim>\<open>Promise.map(groups, (gIds) => getRelatedRelations(user, gIds, elements, lvl, cache))\<close>,
  the calls taken one after the other in the order of the groups (with fewer than
  \<open>MAX_SPLIT\<close> found relations there is one group and one call). Each call runs the body
  of \<^verbatim>\<open>getRelatedRelations\<close>: it collects the hits and, when relations were found,
  maps itself over their groups at the next level. \<open>None\<close> is a traversal that never
  returns.
\<close>

partial_function (option) getRelatedRelations_groups ::
  "world \<Rightarrow> user \<Rightarrow> string list list \<Rightarrow> element list \<Rightarrow> nat \<Rightarrow> js_Map \<Rightarrow>
   (element list \<times> js_Map) option" where
  "getRelatedRelations_groups W u groups elements lvl cache =
     (case groups of
        [] \<Rightarrow> Some (elements, cache)
      | gIds # later \<Rightarrow>
          Option.bind
            (if length (fst (snd (collect_hits W u gIds elements lvl cache))) > 0 then
               getRelatedRelations_groups W u
                 (R_splitEvery MAX_SPLIT (fst (snd (collect_hits W u gIds elements lvl cache))))
                 (fst (collect_hits W u gIds elements lvl cache)) (lvl + 1)
                 (snd (snd (collect_hits W u gIds elements lvl cache)))
             else Some (fst (collect_hits W u gIds elements lvl cache),
                        snd (snd (collect_hits W u gIds elements lvl cache))))
            (\<lambda>st. getRelatedRelations_groups W u later (fst st) lvl (snd st)))"

definition getRelatedRelations ::
  "world \<Rightarrow> user \<Rightarrow> string list \<Rightarrow> element list \<Rightarrow> nat \<Rightarrow> js_Map \<Rightarrow>
   (element list \<times> js_Map) option" where
  "getRelatedRelations W u targetIds elements lvl cache =
     getRelatedRelations_groups W u [targetIds] elements lvl cache"

definition getRelationsToRemove ::
  "world \<Rightarrow> user \<Rightarrow> element list \<Rightarrow> (element list \<times> js_Map) option" where
  "getRelationsToRemove W u elements =
     (let ids = map internal_id elements
      in getRelatedRelations W u ids [] 0 new_Map)"

definition ROLE_FROM :: string where
  "ROLE_FROM = ''from''"

definition ROLE_TO :: string where
  "ROLE_TO = ''to''"

definition UNIMPACTED_ENTITIES_ROLE :: "decls \<Rightarrow> string list" where
  "UNIMPACTED_ENTITIES_ROLE D =
     [RELATION_CREATED_BY D @ ''_'' @ ROLE_TO,
      RELATION_OBJECT_MARKING D @ ''_'' @ ROLE_TO,
      RELATION_OBJECT_LABEL D @ ''_'' @ ROLE_TO,
      RELATION_KILL_CHAIN_PHASE D @ ''_'' @ ROLE_TO,
      RELATION_INDICATES D @ ''_'' @ ROLE_TO]"

definition isImpactedTypeAndSide :: "decls \<Rightarrow> string \<Rightarrow> string \<Rightarrow> bool" where
  "isImpactedTypeAndSide D type side = (type @ ''_'' @ side \<notin> set (UNIMPACTED_ENTITIES_ROLE D))"

text \<open>\<^verbatim>\<open>elBulk\<close>: a rejected call and a response with failed items both end as a
  DatabaseError.\<close>

definition elBulk :: "world \<Rightarrow> bulk_item list \<Rightarrow> call list \<times> failure option" where
  "elBulk W body =
     ([Bulk body],
      if el_bulk W body then None else Some (AppError DatabaseError ''Error updating elastic''))"

definition elDeleteInstanceIds :: "world \<Rightarrow> element list \<Rightarrow> call list \<times> failure option" where
  "elDeleteInstanceIds W instances =
     (if length instances > 0 then
        let bodyDelete = map (\<lambda>doc. BulkDelete (x_index doc) (internal_id doc)) instances;
            bulk = elBulk W bodyDelete
        in (CacheDel instances # fst bulk, snd bulk)
      else ([], None))"

record cleanup =
  relation :: element
  isFromCleanup :: bool
  isToCleanup :: bool

definition elRemoveRelationConnection ::
  "decls \<Rightarrow> world \<Rightarrow> user \<Rightarrow> cleanup list \<Rightarrow> call list \<times> failure option" where
  "elRemoveRelationConnection D W u relsFromTo =
     (if length relsFromTo > 0 then
        let idsToResolve = R_uniq (concat (map (\<lambda>r.
                (if isFromCleanup r then [fromId (relation r)] else [])
                @ (if isToCleanup r then [toId (relation r)] else [])) relsFromTo));
            found = elFindByIds D W u idsToResolve
                      \<lparr>indices = READ_DATA_INDICES D, toMap = False, find_type = None\<rparr>
        in case snd found of
             Inl e \<Rightarrow> (fst found, Some e)
           | Inr res \<Rightarrow>
               let dataIds = Object_values res;
                   indexCache = js_assign [] (map (\<lambda>e. (internal_id e, x_index e)) dataIds);
                   lookup = (\<lambda>i. case i of None \<Rightarrow> None | Some s \<Rightarrow> map_of indexCache s);
                   bodyUpdate = concat (map (\<lambda>r.
                     let type = buildRefRelationKey D (entity_type (relation r)) in
                       (case lookup (fromId (relation r)) of
                          Some fromIndex \<Rightarrow>
                            if isFromCleanup r \<and> fromIndex \<noteq> [] then
                              [BulkUpdateRemoveIf fromIndex (fromId (relation r)) type
                                 (toId (relation r))]
                            else []
                        | None \<Rightarrow> [])
                       @ (case lookup (toId (relation r)) of
                            Some toIndex \<Rightarrow>
                              if isToCleanup r \<and> toIndex \<noteq> [] then
                                [BulkUpdateRemoveIf toIndex (toId (relation r)) type
                                   (fromId (relation r))]
                              else []
                          | None \<Rightarrow> [])) relsFromTo);
                   bulk = elBulk W bodyUpdate
               in (fst found @ CacheDel dataIds # fst bulk, snd bulk)
      else ([], None))"

text \<open>\<^verbatim>\<open>Promise.map(groups, f, opts)\<close> for a writing \<open>f\<close>: the groups one after the other,
  up to the first that fails.\<close>

fun run_groups :: "('a \<Rightarrow> call list \<times> failure option) \<Rightarrow> 'a list \<Rightarrow> call list \<times> failure option" where
  "run_groups f [] = ([], None)"
| "run_groups f (g # gs) =
     (case f g of
        (cs, Some e) \<Rightarrow> (cs, Some e)
      | (cs, None) \<Rightarrow> (cs @ fst (run_groups f gs), snd (run_groups f gs)))"

definition relsFromToImpacts :: "decls \<Rightarrow> js_Map \<Rightarrow> element list \<Rightarrow> cleanup list" where
  "relsFromToImpacts D relationsToRemoveMap cleanupRelations =
     filter (\<lambda>r. isFromCleanup r \<or> isToCleanup r)
       (map (\<lambda>r.
          let fromWillNotBeRemoved = \<not> Map_has relationsToRemoveMap (fromId r);
              isFromCleanup = fromWillNotBeRemoved \<and> isImpactedTypeAndSide D (entity_type r) ROLE_FROM;
              toWillNotBeRemoved = \<not> Map_has relationsToRemoveMap (toId r);
              isToCleanup = toWillNotBeRemoved \<and> isImpactedTypeAndSide D (entity_type r) ROLE_TO
          in \<lparr>relation = r, isFromCleanup = isFromCleanup, isToCleanup = isToCleanup\<rparr>)
        cleanupRelations)"

text \<open>
  \<open>elDeleteElements\<close>: \<open>None\<close> when the traversal never returns; otherwise the calls made
  after the traversal (whose listings are reads and are not recorded) and the result.
\<close>

definition elDeleteElements ::
  "decls \<Rightarrow> world \<Rightarrow> user \<Rightarrow> element list \<Rightarrow> (call list \<times> (failure + element list)) option" where
  "elDeleteElements D W u elements =
     (if length elements = 0 then Some ([], Inr [])
      else
        case getRelationsToRemove W u elements of
          None \<Rightarrow> None
        | Some (relations, relationsToRemoveMap) \<Rightarrow>
            Some (
              let stixRelations =
                    filter (\<lambda>r. isStixRelationShipExceptMeta D (relationship_type r)) relations;
                  loads = map (\<lambda>r. StixLoadById (internal_id r)) stixRelations;
                  dependencyDeletions = map (\<lambda>r. stixLoadById W u (internal_id r)) stixRelations;
                  basicCleanup = filter (\<lambda>f. isBasicRelationship D (entity_type f)) elements;
                  cleanupRelations = relations @ basicCleanup;
                  impacts = relsFromToImpacts D relationsToRemoveMap cleanupRelations;
                  cleaned = run_groups (elRemoveRelationConnection D W u)
                              (R_splitEvery MAX_SPLIT impacts)
              in case snd cleaned of
                   Some e \<Rightarrow> (loads @ fst cleaned, Inl e)
                 | None \<Rightarrow>
                     let deleted = run_groups (elDeleteInstanceIds W)
                                     (R_splitEvery MAX_SPLIT relations)
                     in case snd deleted of
                          Some e \<Rightarrow> (loads @ fst cleaned @ fst deleted, Inl e)
                        | None \<Rightarrow>
                            let removed = elDeleteInstanceIds W elements
                            in case snd removed of
                                 Some e \<Rightarrow>
                                   (loads @ fst cleaned @ fst deleted @ fst removed, Inl e)
                               | None \<Rightarrow>
                                   (loads @ fst cleaned @ fst deleted @ fst removed,
                                    Inr dependencyDeletions)))"

section \<open>Concrete values for evaluation\<close>

text \<open>
  One choice of the imported declarations, used where a property is evaluated at a
  concrete input. No general statement depends on it.
\<close>

definition example_decls :: decls where
  "example_decls =
     \<lparr>BYPASS = ''BYPASS'',
      RELATION_OBJECT_MARKING = ''object-marking'',
      RELATION_CREATED_BY = ''created-by'',
      RELATION_OBJECT_LABEL = ''object-label'',
      RELATION_KILL_CHAIN_PHASE = ''kill-chain-phase'',
      RELATION_INDICATES = ''indicates'',
      BASE_TYPE_RELATION = ''RELATION'',
      INTERNAL_FROM_FIELD = ''i_relations_from'',
      INTERNAL_TO_FIELD = ''i_relations_to'',
      buildRefRelationKey = (\<lambda>t. ''rel_'' @ t @ ''.internal_id''),
      buildRefRelationSearchKey =
        (\<lambda>t. ''rel_'' @ (case t of JStr s \<Rightarrow> s | _ \<Rightarrow> ''undefined'') @ ''.*''),
      getParentTypes = (\<lambda>t. [JStr ''Stix-Core-Object'']),
      convertEntityTypeToStixType = (\<lambda>t. case t of JStr s \<Rightarrow> s | _ \<Rightarrow> ''undefined''),
      isBasicRelationship = (\<lambda>t. t \<in> set [''uses'', ''object-marking'', ''indicates'']),
      isStixRelationShipExceptMeta = (\<lambda>t. t \<in> set [Some ''uses'', Some ''indicates'']),
      isStixObjectAliased = (\<lambda>t. False),
      isNotEmptyField_id = (\<lambda>i. i \<noteq> None \<and> i \<noteq> Some []),
      isNotEmptyField_element = (\<lambda>v. v \<noteq> None),
      getInstanceIds = (\<lambda>v. case v of None \<Rightarrow> [] | Some e \<Rightarrow> [internal_id e]),
      ID_INTERNAL = ''internal_id'',
      ID_STANDARD = ''standard_id'',
      IDS_STIX = ''x_opencti_stix_ids'',
      INTERNAL_IDS_ALIASES = ''i_aliases_ids'',
      ES_MAX_PAGINATION = 5000,
      READ_PLATFORM_INDICES = ''opencti_*'',
      READ_RELATIONSHIPS_INDICES = ''opencti_*_relationships*'',
      READ_DATA_INDICES = ''opencti_stix*'',
      cursorToOffset =
        (\<lambda>c. if c = ''!'' then Inl (SyntaxError ''Unexpected token in JSON at position 0'')
             else Inr (JArr [JStr c])),
      Array_prototype_members =
        [''concat'', ''copyWithin'', ''fill'', ''find'', ''findIndex'', ''lastIndexOf'', ''pop'',
         ''push'', ''reverse'', ''shift'', ''unshift'', ''slice'', ''sort'', ''splice'',
         ''includes'', ''indexOf'', ''join'', ''keys'', ''entries'', ''values'', ''forEach'',
         ''filter'', ''flat'', ''flatMap'', ''map'', ''every'', ''some'', ''reduce'',
         ''reduceRight''],
      ToString = (\<lambda>v. ''[object Object]'')\<rparr>"

definition tlp_green :: marking where
  "tlp_green = \<lparr>marking_internal_id = ''m-green'', definition_type = ''TLP''\<rparr>"

definition tlp_red :: marking where
  "tlp_red = \<lparr>marking_internal_id = ''m-red'', definition_type = ''TLP''\<rparr>"

definition pap_amber :: marking where
  "pap_amber = \<lparr>marking_internal_id = ''m-pap'', definition_type = ''PAP''\<rparr>"

definition admin_user :: user where
  "admin_user = \<lparr>capabilities = Some [''KNOWLEDGE'', ''BYPASS''], allowed_marking = [],
                  all_marking = [tlp_green, tlp_red, pap_amber]\<rparr>"


definition analyst_user :: user where
  "analyst_user = \<lparr>capabilities = Some [''KNOWLEDGE''], allowed_marking = [tlp_green, pap_amber],
                    all_marking = [tlp_green, tlp_red, pap_amber]\<rparr>"





text \<open>A document seen through its marking references only.\<close>

definition marked_doc :: "string list \<Rightarrow> es_doc" where
  "marked_doc refs =
     \<lparr>field_values = (\<lambda>f. if f = ''rel_object-marking.*'' \<or> f = ''rel_object-marking.internal_id''
                           then refs else []),
      leaf_holds = (\<lambda>j. False)\<rparr>"

text \<open>A relationship ready for indexing, and two variants of it.\<close>

definition malware_a :: js_object where
  "malware_a = [(''internal_id'', JStr ''A''), (''name'', JStr ''emotet''),
                (''entity_type'', JStr ''Malware'')]"

definition intrusion_b :: js_object where
  "intrusion_b = [(''internal_id'', JStr ''B''), (''name'', JStr ''apt''),
                  (''entity_type'', JStr ''Intrusion-Set'')]"

definition rel_uses :: js_object where
  "rel_uses = [(''internal_id'', JStr ''R''), (''entity_type'', JStr ''uses''),
               (''base_type'', JStr ''RELATION''),
               (''from'', JObj malware_a), (''fromId'', JStr ''A''), (''fromRole'', JStr ''uses_from''),
               (''to'', JObj intrusion_b), (''toId'', JStr ''B''), (''toRole'', JStr ''uses_to'')]"

definition rel_null_from :: js_object where
  "rel_null_from = [(''internal_id'', JStr ''R''), (''entity_type'', JStr ''uses''),
               (''base_type'', JStr ''RELATION''),
               (''from'', JNull), (''fromId'', JStr ''A''), (''fromRole'', JStr ''uses_from''),
               (''to'', JObj intrusion_b), (''toId'', JStr ''B''), (''toRole'', JStr ''uses_to'')]"

definition rel_swapped_roles :: js_object where
  "rel_swapped_roles = [(''internal_id'', JStr ''R''), (''entity_type'', JStr ''uses''),
               (''base_type'', JStr ''RELATION''),
               (''from'', JObj malware_a), (''fromId'', JStr ''A''), (''fromRole'', JStr ''uses_to''),
               (''to'', JObj intrusion_b), (''toId'', JStr ''B''), (''toRole'', JStr ''uses_from'')]"

text \<open>
  A world over a list of stored elements: a search answers with the stored elements whose
  id is asked for by a \<^verbatim>\<open>term\<close> clause, the listing of the traversal with the stored
  relationships that have a connection to one of the ids; every bulk call succeeds and the
  cache is empty.
\<close>

definition term_ids :: "es_query \<Rightarrow> string list" where
  "term_ids q =
     (case q of
        Leaf (JObj [(k, JObj [(f, JStr i)])]) \<Rightarrow> if k = ''term'' then [i] else []
      | _ \<Rightarrow> [])"

definition requested_ids :: "search_request \<Rightarrow> string list" where
  "requested_ids req =
     concat (map (\<lambda>q. case q of Bool_q m mn s msm \<Rightarrow> concat (map term_ids s) | _ \<Rightarrow> [])
               (req_must req))"

definition hit_of :: "element \<Rightarrow> es_hit" where
  "hit_of e = \<lparr>hit_index = x_index e,
               hit_source = [(''internal_id'', JStr (internal_id e))],
               hit_sort = JNull\<rparr>"

definition references :: "element \<Rightarrow> string list \<Rightarrow> bool" where
  "references r ids =
     ((case fromId r of None \<Rightarrow> False | Some i \<Rightarrow> i \<in> set ids) \<or>
      (case toId r of None \<Rightarrow> False | Some i \<Rightarrow> i \<in> set ids))"

definition no_element :: element where
  "no_element = \<lparr>internal_id = [], entity_type = [], relationship_type = None, fromId = None,
                  toId = None, x_index = [], level = None, object_marking_refs = None\<rparr>"

definition store_world :: "element list \<Rightarrow> world" where
  "store_world docs =
     \<lparr>el_search = (\<lambda>req. Inr \<lparr>hits = map hit_of
                                  (filter (\<lambda>e. internal_id e \<in> set (requested_ids req)) docs),
                              total = 0, buckets = []\<rparr>),
      el_bulk = (\<lambda>body. True),
      elDataConverter = (\<lambda>h.
        case List.find (\<lambda>e. JStr (internal_id e) = js_get (hit_source h) ''internal_id'') docs of
          Some e \<Rightarrow> Inr e
        | None \<Rightarrow> Inl (AppError DatabaseError
                        ''[ELASTIC] Something fail in reconstruction of the relation'')),
      cacheGet = (\<lambda>ids. None),
      elList_relations = (\<lambda>u ids. filter (\<lambda>r. references r ids) docs),
      stixLoadById = (\<lambda>u i. case List.find (\<lambda>e. internal_id e = i) docs of
                              Some e \<Rightarrow> e | None \<Rightarrow> no_element),
      paginate_clauses =
        (\<lambda>c m mn. Inr (m, mn, JArr [JObj [(''standard_id.keyword'', JStr ''asc'')]]))\<rparr>"

text \<open>The same world with an engine that rejects every search.\<close>

definition failing_world :: "es_error \<Rightarrow> world" where
  "failing_world err = (store_world [])\<lparr>el_search := (\<lambda>req. Inl err)\<rparr>"

definition missing_index_error :: es_error where
  "missing_index_error =
     \<lparr>es_message = ''index_not_found_exception'',
      root_cause = Some [''no such index [opencti_stix_domain_objects]'']\<rparr>"

definition missing_mapping_error :: es_error where
  "missing_mapping_error =
     \<lparr>es_message = ''search_phase_execution_exception'',
      root_cause = Some [''No mapping found for [created_at] in order to sort on'']\<rparr>"

text \<open>A rejection that carries no response of the engine: the connection was refused.\<close>

definition connection_error :: es_error where
  "connection_error = \<lparr>es_message = ''connect ECONNREFUSED'', root_cause = None\<rparr>"

definition parse_error :: es_error where
  "parse_error =
     \<lparr>es_message = ''search_phase_execution_exception'',
      root_cause = Some [''no such index [opencti_history]'', ''failed to parse date field'']\<rparr>"

definition page_options :: "js_int \<Rightarrow> paginate_options" where
  "page_options f = \<lparr>option_ids = Ids_omitted, first = f, after = None, connectionFormat = True,
                     criteria = JObj []\<rparr>"

text \<open>Stored elements: two entities and relationships between them.\<close>

definition entity :: "string \<Rightarrow> element" where
  "entity i = \<lparr>internal_id = i, entity_type = ''Malware'', relationship_type = None,
               fromId = None, toId = None, x_index = ''opencti_stix_domain_objects'',
               level = None, object_marking_refs = None\<rparr>"

definition relationship :: "string \<Rightarrow> string \<Rightarrow> string \<Rightarrow> element" where
  "relationship i f t = \<lparr>internal_id = i, entity_type = ''uses'', relationship_type = Some ''uses'',
               fromId = Some f, toId = Some t, x_index = ''opencti_stix_core_relationships'',
               level = None, object_marking_refs = None\<rparr>"

text \<open>Relationship \<open>A\<close> goes from entity \<open>E\<close> to relationship \<open>B\<close>, and \<open>B\<close> from \<open>A\<close>
  to entity \<open>X\<close>: each of the two has a connection to the other.\<close>

definition cyclic_store :: "element list" where
  "cyclic_store = [entity ''E'', entity ''X'', relationship ''A'' ''E'' ''B'',
                   relationship ''B'' ''A'' ''X'']"

text \<open>One relationship \<open>R\<close> from entity \<open>E\<close> to entity \<open>X\<close>.\<close>

definition simple_store :: "element list" where
  "simple_store = [entity ''E'', entity ''X'', relationship ''R'' ''E'' ''X'']"

text \<open>A cached element with one marking.\<close>

definition marked_entity :: "string \<Rightarrow> string list \<Rightarrow> element" where
  "marked_entity i ms = (entity i)\<lparr>object_marking_refs := Some ms\<rparr>"

text \<open>The sizes of the searches among some calls.\<close>

fun issued_sizes :: "call list \<Rightarrow> int option list" where
  "issued_sizes [] = []"
| "issued_sizes (Search q # cs) = req_size q # issued_sizes cs"
| "issued_sizes (c # cs) = issued_sizes cs"

text \<open>A world whose cache holds three entries: an element marked green, an element
  marked green and with a marking outside the universe, and a null value; its index
  holds one more element, \<open>X\<close>, with no marking.\<close>

definition cached_world :: world where
  "cached_world = (store_world [entity ''X''])\<lparr>cacheGet := (\<lambda>ids.
      Some [(''E1'', Some (marked_entity ''E1'' [''m-green''])),
            (''E2'', Some (marked_entity ''E2'' [''m-green'', ''m-other''])),
            (''E3'', None)])\<rparr>"

definition default_find :: find_options where
  "default_find = \<lparr>indices = ''opencti_stix*'', toMap = False, find_type = None\<rparr>"

text \<open>Relationship \<open>A\<close> from \<open>E\<close> to \<open>X\<close> and relationship \<open>B\<close> from \<open>E\<close> to \<open>A\<close>:
  \<open>B\<close> is reached from \<open>E\<close> directly and through \<open>A\<close>; there is no cycle.\<close>

definition diamond_store :: "element list" where
  "diamond_store = [entity ''E'', entity ''X'', relationship ''A'' ''E'' ''X'',
                    relationship ''B'' ''E'' ''A'']"

text \<open>The bodies of the bulk writes among some calls, in order.\<close>

fun bulk_bodies :: "call list \<Rightarrow> bulk_item list list" where
  "bulk_bodies [] = []"
| "bulk_bodies (Bulk body # cs) = body # bulk_bodies cs"
| "bulk_bodies (c # cs) = bulk_bodies cs"

chapter \<open>Properties\<close>

section \<open>The access filter\<close>


lemma distinct_R_uniq: "distinct (R_uniq xs)"
  by (simp add: R_uniq_def)




lemma proto_member: "''__proto__'' \<in> set Object_prototype_members"
  by (simp add: Object_prototype_members_def)














text \<open>
  When the two marking lists agree on the definition type of every marking they share,
  the forbidden markings are simply the markings of the universe that are not allowed.
\<close>

lemma forbidden_markings_consistent:
  assumes "\<forall>a \<in> set (allowed_marking u). \<forall>m \<in> set (all_marking u).
      marking_internal_id a = marking_internal_id m \<longrightarrow> definition_type a = definition_type m"
  shows "set (forbidden_markings u) =
     marking_internal_id ` set (all_marking u) - marking_internal_id ` set (allowed_marking u)"
  using assms unfolding forbidden_markings_def by auto

lemma markingGroups_loop_failure:
  "markingGroups_loop D a b ks = Inl e \<Longrightarrow> failure_class e = None"
  by (induction ks arbitrary: e) (auto simp: Let_def split: js_read.splits sum.splits)

lemma buildMarkingRestriction_failure:
  "buildMarkingRestriction D u = Inl e \<Longrightarrow> failure_class e = None"
  by (auto simp: buildMarkingRestriction_def mustNotHaveOneOf_def Let_def
      dest: markingGroups_loop_failure split: if_splits sum.splits)

lemma analyst_restriction:
  "buildMarkingRestriction example_decls analyst_user =
     Inr \<lparr>must = [Bool_q [] []
                     [Bool_q [] [Exists ''rel_object-marking.*''] [] None,
                      Bool_q [] [Bool_q [] [] [Match ''rel_object-marking.*'' ''m-red''] (Some 1)]
                        [] None]
                     (Some 1)],
          must_not = []\<rparr>"
proof -
  have b: "\<not> isBypass example_decls analyst_user"
    by (simp add: isBypass_def example_decls_def analyst_user_def)
  have g1: "R_groupBy definition_type (allowed_marking analyst_user)
            = \<lparr>own_groups = [(''TLP'', [tlp_green]), (''PAP'', [pap_amber])],
               proto_array = None\<rparr>"
    by (simp add: R_groupBy_def R_uniq_def analyst_user_def tlp_green_def pap_amber_def)
  have g2: "R_groupBy definition_type (all_marking analyst_user)
            = \<lparr>own_groups = [(''TLP'', [tlp_green, tlp_red]), (''PAP'', [pap_amber])],
               proto_array = None\<rparr>"
    by (simp add: R_groupBy_def R_uniq_def analyst_user_def tlp_green_def tlp_red_def
        pap_amber_def)
  have m: "mustNotHaveOneOf example_decls analyst_user = Inr [[''m-red'']]"
    by (simp add: mustNotHaveOneOf_def g1 g2 Object_keys_def read_group_def
        tlp_green_def tlp_red_def pap_amber_def)
  have k: "buildRefRelationSearchKey example_decls (JStr (RELATION_OBJECT_MARKING example_decls))
             = ''rel_object-marking.*''"
    by (simp add: example_decls_def)
  have a: "allowed_marking analyst_user \<noteq> []"
    by (simp add: analyst_user_def)
  show ?thesis
    using b a by (simp add: buildMarkingRestriction_def m k)
qed




section \<open>The relation projection codec\<close>

lemma js_get_R_assoc: "js_get (R_assoc k v obj) k' = (if k' = k then v else js_get obj k')"
  by (simp add: js_get_def R_assoc_def update_conv')

lemma js_get_R_dissoc: "js_get (R_dissoc k obj) k' = (if k' = k then JUndefined else js_get obj k')"
  by (simp add: js_get_def R_dissoc_def delete_conv')

lemma js_get_R_mergeAll3:
  "js_get (R_mergeAll [a, b, c]) k =
     (case map_of c k of Some v \<Rightarrow> v
      | None \<Rightarrow> (case map_of b k of Some v \<Rightarrow> v | None \<Rightarrow> js_get a k))"
  by (simp add: js_get_def R_mergeAll_def merge_conv' map_add_def split: option.splits)

lemma encode_ok:
  assumes "js_get thing ''from'' = JObj from" "js_get thing ''to'' = JObj to"
    "js_get thing ''fromRole'' = JStr fr" "js_get thing ''toRole'' = JStr tr"
  shows "prepareRelation D thing = Inr (R_dissoc ''toRole''
               (R_dissoc ''toId''
               (R_dissoc ''to''
               (R_dissoc ''fromRole''
               (R_dissoc ''fromId''
               (R_dissoc ''from''
               (R_dissoc (INTERNAL_FROM_FIELD D)
               (R_dissoc (INTERNAL_TO_FIELD D)
               (R_assoc ''connections'' (JArr 
              [JObj [(''internal_id'', js_get from ''internal_id''),
                     (''name'', js_get from ''name''),
                     (''types'', JArr (js_get from ''entity_type''
                                        # getParentTypes D (js_get from ''entity_type''))),
                     (''role'', JStr fr)],
               JObj [(''internal_id'', js_get to ''internal_id''),
                     (''name'', js_get to ''name''),
                     (''types'', JArr (js_get to ''entity_type''
                                        # getParentTypes D (js_get to ''entity_type''))),
                     (''role'', JStr tr)]]) thing)))))))))"
  using assms by (simp add: prepareRelation_def)

lemma elRebuildRelation_two_connections:
  assumes base: "js_get concept ''base_type'' = JStr (BASE_TYPE_RELATION D)"
    and et: "js_get concept ''entity_type'' = JStr et"
    and conns: "js_get concept ''connections'' = JArr [JObj c1, JObj c2]"
    and r1: "js_get c1 ''role'' = JStr (et @ ''_from'')"
    and r2: "js_get c2 ''role'' = JStr (et @ ''_to'')"
    and t1: "js_get c1 ''types'' = JArr (t1 # ts1)"
    and t2: "js_get c2 ''types'' = JArr (t2 # ts2)"
  shows "elRebuildRelation D concept =
     Inr (R_dissoc ''connections'' (R_assoc ''relationship_type'' (JStr et)
        (R_mergeAll [concept,
           [(''from'', JNull), (''fromId'', js_get c1 ''internal_id''),
            (''fromRole'', JStr (et @ ''_from'')), (''fromType'', t1),
            (''source_ref'', JStr (convertEntityTypeToStixType D t1 @ ''--temporary''))],
           [(''to'', JNull), (''toId'', js_get c2 ''internal_id''),
            (''toRole'', JStr (et @ ''_to'')), (''toType'', t2),
            (''target_ref'', JStr (convertEntityTypeToStixType D t2 @ ''--temporary''))]])))"
proof -
  have f: "R_find_role (js_template D (JStr et) @ ''_from'') (JArr [JObj c1, JObj c2]) = Inr (Some (JObj c1))"
    using r1 by simp
  have t: "R_find_role (js_template D (JStr et) @ ''_to'') (JArr [JObj c1, JObj c2]) = Inr (Some (JObj c2))"
    using r1 r2 by simp
  have b1: "elBuildRelation ''from'' (JObj c1) =
      Inr [(''from'', JNull), (''fromId'', js_get c1 ''internal_id''),
            (''fromRole'', JStr (et @ ''_from'')), (''fromType'', t1)]"
    using r1 t1 by (simp add: elBuildRelation_def)
  have b2: "elBuildRelation ''to'' (JObj c2) =
      Inr [(''to'', JNull), (''toId'', js_get c2 ''internal_id''),
            (''toRole'', JStr (et @ ''_to'')), (''toType'', t2)]"
    using r2 t2 by (simp add: elBuildRelation_def)
  have m: "elMergeRelation D concept (Some (JObj c1)) (Some (JObj c2)) =
      Inr (R_mergeAll [concept,
           [(''from'', JNull), (''fromId'', js_get c1 ''internal_id''),
            (''fromRole'', JStr (et @ ''_from'')), (''fromType'', t1),
            (''source_ref'', JStr (convertEntityTypeToStixType D t1 @ ''--temporary''))],
           [(''to'', JNull), (''toId'', js_get c2 ''internal_id''),
            (''toRole'', JStr (et @ ''_to'')), (''toType'', t2),
            (''target_ref'', JStr (convertEntityTypeToStixType D t2 @ ''--temporary''))]])"
    by (simp add: elMergeRelation_def b1 b2 R_assoc_def js_get_def)
  have e: "js_get (R_mergeAll [concept,
           [(''from'', JNull), (''fromId'', js_get c1 ''internal_id''),
            (''fromRole'', JStr (et @ ''_from'')), (''fromType'', t1),
            (''source_ref'', JStr (convertEntityTypeToStixType D t1 @ ''--temporary''))],
           [(''to'', JNull), (''toId'', js_get c2 ''internal_id''),
            (''toRole'', JStr (et @ ''_to'')), (''toType'', t2),
            (''target_ref'', JStr (convertEntityTypeToStixType D t2 @ ''--temporary''))]]) ''entity_type'' = JStr et"
    by (simp add: js_get_R_mergeAll3 et)
  show ?thesis
    unfolding elRebuildRelation_def
    by (simp only: base et conns f t m e Let_def sum.case refl if_True)
qed

lemma prepareRelation_fields:
  assumes ends: "js_get thing ''from'' = JObj from" "js_get thing ''to'' = JObj to"
    and roles: "js_get thing ''fromRole'' = JStr fr" "js_get thing ''toRole'' = JStr tr"
    and fields: "INTERNAL_FROM_FIELD D \<notin> {''connections'', ''base_type'', ''entity_type''}"
      "INTERNAL_TO_FIELD D \<notin> {''connections'', ''base_type'', ''entity_type''}"
  shows "\<exists>concept. prepareRelation D thing = Inr concept \<and>
     js_get concept ''base_type'' = js_get thing ''base_type'' \<and>
     js_get concept ''entity_type'' = js_get thing ''entity_type'' \<and>
     js_get concept ''connections'' = JArr
              [JObj [(''internal_id'', js_get from ''internal_id''),
                     (''name'', js_get from ''name''),
                     (''types'', JArr (js_get from ''entity_type''
                                        # getParentTypes D (js_get from ''entity_type''))),
                     (''role'', JStr fr)],
               JObj [(''internal_id'', js_get to ''internal_id''),
                     (''name'', js_get to ''name''),
                     (''types'', JArr (js_get to ''entity_type''
                                        # getParentTypes D (js_get to ''entity_type''))),
                     (''role'', JStr tr)]]"
proof -
  have neq: "''connections'' \<noteq> INTERNAL_FROM_FIELD D" "''base_type'' \<noteq> INTERNAL_FROM_FIELD D"
    "''entity_type'' \<noteq> INTERNAL_FROM_FIELD D" "''connections'' \<noteq> INTERNAL_TO_FIELD D"
    "''base_type'' \<noteq> INTERNAL_TO_FIELD D" "''entity_type'' \<noteq> INTERNAL_TO_FIELD D"
    using fields by auto
  show ?thesis
    by (simp add: encode_ok [OF ends roles] js_get_R_dissoc js_get_R_assoc neq)
qed

lemma decode_encode_fields:
  assumes base: "js_get thing ''base_type'' = JStr (BASE_TYPE_RELATION D)"
    and et: "js_get thing ''entity_type'' = JStr et"
    and ends: "js_get thing ''from'' = JObj from" "js_get thing ''to'' = JObj to"
    and roles: "js_get thing ''fromRole'' = JStr (et @ ''_from'')"
      "js_get thing ''toRole'' = JStr (et @ ''_to'')"
    and fields: "INTERNAL_FROM_FIELD D \<notin> {''connections'', ''base_type'', ''entity_type''}"
      "INTERNAL_TO_FIELD D \<notin> {''connections'', ''base_type'', ''entity_type''}"
  shows "decoded_field D thing ''fromId'' = Inr (js_get from ''internal_id'')"
    and "decoded_field D thing ''fromRole'' = Inr (JStr (et @ ''_from''))"
    and "decoded_field D thing ''fromType'' = Inr (js_get from ''entity_type'')"
    and "decoded_field D thing ''toId'' = Inr (js_get to ''internal_id'')"
    and "decoded_field D thing ''toRole'' = Inr (JStr (et @ ''_to''))"
    and "decoded_field D thing ''toType'' = Inr (js_get to ''entity_type'')"
    and "decoded_field D thing ''relationship_type'' = Inr (JStr et)"
    and "decoded_field D thing ''entity_type'' = Inr (JStr et)"
proof -
  from prepareRelation_fields [OF ends roles fields]
  obtain concept where c: "prepareRelation D thing = Inr concept"
    "js_get concept ''base_type'' = JStr (BASE_TYPE_RELATION D)"
    "js_get concept ''entity_type'' = JStr et"
    "js_get concept ''connections'' = JArr
              [JObj [(''internal_id'', js_get from ''internal_id''),
                     (''name'', js_get from ''name''),
                     (''types'', JArr (js_get from ''entity_type''
                                        # getParentTypes D (js_get from ''entity_type''))),
                     (''role'', JStr (et @ ''_from''))],
               JObj [(''internal_id'', js_get to ''internal_id''),
                     (''name'', js_get to ''name''),
                     (''types'', JArr (js_get to ''entity_type''
                                        # getParentTypes D (js_get to ''entity_type''))),
                     (''role'', JStr (et @ ''_to''))]]"
    using base et by auto
  note d = elRebuildRelation_two_connections [OF c(2) c(3) c(4), of "js_get from ''entity_type''"
      "getParentTypes D (js_get from ''entity_type'')" "js_get to ''entity_type''"
      "getParentTypes D (js_get to ''entity_type'')"]
  have d': "decode_encode D thing = Inr (R_dissoc ''connections'' (R_assoc ''relationship_type'' (JStr et)
        (R_mergeAll [concept,
           [(''from'', JNull), (''fromId'', js_get from ''internal_id''),
            (''fromRole'', JStr (et @ ''_from'')), (''fromType'', js_get from ''entity_type''),
            (''source_ref'', JStr (convertEntityTypeToStixType D (js_get from ''entity_type'') @ ''--temporary''))],
           [(''to'', JNull), (''toId'', js_get to ''internal_id''),
            (''toRole'', JStr (et @ ''_to'')), (''toType'', js_get to ''entity_type''),
            (''target_ref'', JStr (convertEntityTypeToStixType D (js_get to ''entity_type'') @ ''--temporary''))]])))"
    unfolding decode_encode_def c(1) using d by (simp add: js_get_def)
  show "decoded_field D thing ''fromId'' = Inr (js_get from ''internal_id'')"
    and "decoded_field D thing ''fromRole'' = Inr (JStr (et @ ''_from''))"
    and "decoded_field D thing ''fromType'' = Inr (js_get from ''entity_type'')"
    and "decoded_field D thing ''toId'' = Inr (js_get to ''internal_id'')"
    and "decoded_field D thing ''toRole'' = Inr (JStr (et @ ''_to''))"
    and "decoded_field D thing ''toType'' = Inr (js_get to ''entity_type'')"
    and "decoded_field D thing ''relationship_type'' = Inr (JStr et)"
    and "decoded_field D thing ''entity_type'' = Inr (JStr et)"
    unfolding decoded_field_def d'
    by (simp_all add: js_get_R_dissoc js_get_R_assoc js_get_R_mergeAll3 c(3))
qed

text \<open>
  C2, as the code has it. For every relationship object of base type relation whose
  \<open>from\<close> and \<open>to\<close> are resolved objects and whose roles are
  \<open><entity_type>_from\<close> and \<open><entity_type>_to\<close> (the two internal field names that
  encoding strips being none of \<open>connections\<close>, \<open>base_type\<close>, \<open>entity_type\<close>),
  decoding the encoded document gives
  \<open>fromId\<close>, \<open>fromType\<close> equal to the \<open>internal_id\<close> and \<open>entity_type\<close> of the
  resolved \<open>from\<close> endpoint, \<open>fromRole\<close> equal to the role, the same for \<open>to\<close>, and
  \<open>relationship_type\<close> equal to \<open>entity_type\<close>. For every relationship whose \<open>from\<close>
  or \<open>to\<close> is null (or otherwise falsy), encoding fails with a DatabaseError.
\<close>

theorem prepareRelation_roundtrip:
  "(js_get thing ''base_type'' = JStr (BASE_TYPE_RELATION D) \<and>
    js_get thing ''entity_type'' = JStr et \<and>
    js_get thing ''from'' = JObj from \<and> js_get thing ''to'' = JObj to \<and>
    js_get thing ''fromRole'' = JStr (et @ ''_from'') \<and>
    js_get thing ''toRole'' = JStr (et @ ''_to'') \<and>
    INTERNAL_FROM_FIELD D \<notin> {''connections'', ''base_type'', ''entity_type''} \<and>
    INTERNAL_TO_FIELD D \<notin> {''connections'', ''base_type'', ''entity_type''} \<longrightarrow>
      decoded_field D thing ''fromId'' = Inr (js_get from ''internal_id'') \<and>
      decoded_field D thing ''fromRole'' = Inr (js_get thing ''fromRole'') \<and>
      decoded_field D thing ''fromType'' = Inr (js_get from ''entity_type'') \<and>
      decoded_field D thing ''toId'' = Inr (js_get to ''internal_id'') \<and>
      decoded_field D thing ''toRole'' = Inr (js_get thing ''toRole'') \<and>
      decoded_field D thing ''toType'' = Inr (js_get to ''entity_type'') \<and>
      decoded_field D thing ''relationship_type'' = decoded_field D thing ''entity_type'' \<and>
      decoded_field D thing ''entity_type'' = Inr (js_get thing ''entity_type'')) \<and>
   (\<not> truthy (js_get thing ''from'') \<or> \<not> truthy (js_get thing ''to'') \<longrightarrow>
      result_class (prepareRelation D thing) = Some DatabaseError)"
proof (intro conjI impI)
  assume "\<not> truthy (js_get thing ''from'') \<or> \<not> truthy (js_get thing ''to'')"
  then show "result_class (prepareRelation D thing) = Some DatabaseError"
    by (auto simp: prepareRelation_def)
qed (simp_all add: decode_encode_fields)

theorem prepareRelation_roundtrip_witness:
  "decoded_field example_decls rel_uses ''fromId'' = Inr (JStr ''A'') \<and>
   decoded_field example_decls rel_uses ''fromRole'' = Inr (JStr ''uses_from'') \<and>
   decoded_field example_decls rel_uses ''fromType'' = Inr (JStr ''Malware'') \<and>
   decoded_field example_decls rel_uses ''toId'' = Inr (JStr ''B'') \<and>
   decoded_field example_decls rel_uses ''toRole'' = Inr (JStr ''uses_to'') \<and>
   decoded_field example_decls rel_uses ''toType'' = Inr (JStr ''Intrusion-Set'') \<and>
   decoded_field example_decls rel_uses ''relationship_type'' = Inr (JStr ''uses'') \<and>
   \<not> truthy (js_get rel_null_from ''from'') \<and>
   result_class (prepareRelation example_decls rel_null_from) = Some DatabaseError"
  using prepareRelation_roundtrip [of rel_uses example_decls "''uses''" malware_a intrusion_b]
    prepareRelation_roundtrip [of rel_null_from example_decls]
  by (simp add: js_get_def rel_uses_def rel_null_from_def example_decls_def malware_a_def
      intrusion_b_def)

theorem prepareRelation_roundtrip_counterexample:
  "js_get rel_null_from ''from'' = JNull \<and>
   result_class (prepareRelation example_decls rel_null_from) \<noteq> Some DataIntegrityError \<and>
   js_get rel_swapped_roles ''from'' = JObj malware_a \<and>
   js_get rel_swapped_roles ''to'' = JObj intrusion_b \<and>
   js_get rel_swapped_roles ''fromRole'' = JStr ''uses_to'' \<and>
   js_get rel_swapped_roles ''toRole'' = JStr ''uses_from'' \<and>
   js_get rel_swapped_roles ''fromId'' = JStr ''A'' \<and>
   decoded_field example_decls rel_swapped_roles ''fromId'' = Inr (JStr ''B'') \<and>
   decoded_field example_decls rel_swapped_roles ''fromRole'' = Inr (JStr ''uses_from'')"
  by (simp add: decoded_field_def decode_encode_def prepareRelation_def elRebuildRelation_def
      elMergeRelation_def elBuildRelation_def js_get_def R_assoc_def R_dissoc_def R_mergeAll_def
      AList.merge_def Let_def rel_null_from_def rel_swapped_roles_def example_decls_def malware_a_def
      intrusion_b_def)

section \<open>Pagination and aggregation\<close>

lemma filter_all_iff: "\<not> length (filter P xs) < length xs \<longleftrightarrow> (\<forall>x \<in> set xs. P x)"
proof
  assume "\<not> length (filter P xs) < length xs"
  then have "length (filter P xs) = length xs"
    using length_filter_le [of P xs] by linarith
  then show "\<forall>x \<in> set xs. P x"
    by (metis filter_id_conv length_filter_less less_irrefl)
next
  assume "\<forall>x \<in> set xs. P x"
  then have "filter P xs = xs" by (simp add: filter_id_conv)
  then show "\<not> length (filter P xs) < length xs" by simp
qed

lemma paginate_catch_causes:
  assumes "root_cause err = Some causes"
  shows "paginate_catch q cf (EngineFailure err) =
     (if \<forall>r \<in> set causes. invalidMappingCause r then ([Search q], Inr (empty_result cf))
      else ([Search q, LogError ''[ELASTICSEARCH] Paginate fail''], Inl (EngineFailure err)))"
  using assms filter_all_iff [of invalidMappingCause causes]
  by (simp add: paginate_catch_def Let_def)

lemma paginate_catch_no_causes:
  assumes "root_cause err = None"
  shows "paginate_catch q cf (EngineFailure err) =
           ([Search q], Inl (TypeError ''Cannot read property of undefined''))"
  using assms by (simp add: paginate_catch_def)

lemma elPaginate_query_failed:
  "paginate_query D W u indexName options = Inl e \<Longrightarrow>
   elPaginate D W u indexName options = ([], Inl e)"
  by (auto simp: paginate_query_def elPaginate_def split: sum.splits)

lemma elPaginate_over:
  "paginate_query D W u indexName options = Inr query \<Longrightarrow>
   querySize options > ES_MAX_PAGINATION D \<Longrightarrow>
   elPaginate D W u indexName options =
     ([], Inl (AppError DatabaseError
        ''You cannot ask for more than ${ES_MAX_PAGINATION} results. If you need more, please use pagination''))"
  by (auto simp: paginate_query_def elPaginate_def Let_def split: sum.splits)

lemma elPaginate_search_failed:
  "paginate_query D W u indexName options = Inr query \<Longrightarrow>
   querySize options \<le> ES_MAX_PAGINATION D \<Longrightarrow>
   el_search W query = Inl err \<Longrightarrow>
   elPaginate D W u indexName options =
     paginate_catch query (connectionFormat options) (EngineFailure err)"
  by (auto simp: paginate_query_def elPaginate_def Let_def split: sum.splits)

lemma paginate_query_size:
  "paginate_query D W u indexName options = Inr query \<Longrightarrow>
   req_size query = Some (querySize options)"
  by (auto simp: paginate_query_def paginate_request_def split: sum.splits prod.splits)

lemma paginate_catch_sizes:
  "issued_sizes (fst (paginate_catch query cf e)) = [req_size query]"
  by (cases e) (auto simp: paginate_catch_def Let_def split: option.splits)

lemma elPaginate_sizes:
  "paginate_query D W u indexName options = Inr query \<Longrightarrow>
   querySize options \<le> ES_MAX_PAGINATION D \<Longrightarrow>
   issued_sizes (fst (elPaginate D W u indexName options)) = [Some (querySize options)]"
  using paginate_query_size [of D W u indexName options query]
  by (auto simp: paginate_query_def elPaginate_def Let_def paginate_catch_sizes
      split: sum.splits)

lemma querySize_over:
  "first options = Num n \<Longrightarrow> n > ES_MAX_PAGINATION D \<Longrightarrow> querySize options > ES_MAX_PAGINATION D"
  by (auto simp: querySize_def first_or_default_def)

lemma analyst_page:
  "\<not> isl (paginate_query example_decls (store_world []) analyst_user ''opencti_stix*''
            (page_options f))"
  by (simp add: paginate_query_def paginate_must_def searchAfter_def ids_clause_def
      analyst_restriction page_options_def store_world_def)

lemma analyst_page_null_ids:
  "paginate_query example_decls (store_world []) analyst_user ''opencti_stix*''
     ((page_options f)\<lparr>option_ids := Ids_null\<rparr>)
   = Inl (TypeError ''Cannot read property length of null'')"
  by (simp add: paginate_query_def paginate_must_def searchAfter_def ids_clause_def
      analyst_restriction page_options_def store_world_def)

text \<open>
  C6, as the code has it. A call to \<open>elPaginate\<close> with a requested page size
  \<open>first\<close> greater than the configured maximum makes no call at all (so no search) and
  fails. The size is checked after the cursor is decoded and the clauses are built: when
  one of these throws, that error is the outcome; when they succeed, the outcome is a
  DatabaseError.
\<close>

theorem elPaginate_over_maximum:
  "first options = Num n \<and> n > ES_MAX_PAGINATION D \<longrightarrow>
     fst (elPaginate D W u indexName options) = [] \<and>
     isl (snd (elPaginate D W u indexName options)) \<and>
     (paginate_query D W u indexName options = Inl e \<longrightarrow>
        snd (elPaginate D W u indexName options) = Inl e) \<and>
     (\<not> isl (paginate_query D W u indexName options) \<longrightarrow>
        result_class (snd (elPaginate D W u indexName options)) = Some DatabaseError)"
proof (intro impI, elim conjE)
  assume "first options = Num n" "n > ES_MAX_PAGINATION D"
  then have over: "querySize options > ES_MAX_PAGINATION D"
    by (rule querySize_over)
  show "fst (elPaginate D W u indexName options) = [] \<and>
     isl (snd (elPaginate D W u indexName options)) \<and>
     (paginate_query D W u indexName options = Inl e \<longrightarrow>
        snd (elPaginate D W u indexName options) = Inl e) \<and>
     (\<not> isl (paginate_query D W u indexName options) \<longrightarrow>
        result_class (snd (elPaginate D W u indexName options)) = Some DatabaseError)"
  proof (cases "paginate_query D W u indexName options")
    case (Inl x)
    from elPaginate_query_failed [OF Inl] Inl show ?thesis by simp
  next
    case (Inr query)
    from elPaginate_over [OF Inr over] Inr show ?thesis by simp
  qed
qed

theorem elPaginate_over_maximum_witness:
  "first (page_options (Num 5001)) = Num 5001 \<and> 5001 > ES_MAX_PAGINATION example_decls \<and>
   \<not> isl (paginate_query example_decls (store_world []) analyst_user ''opencti_stix*''
            (page_options (Num 5001))) \<and>
   fst (elPaginate example_decls (store_world []) analyst_user ''opencti_stix*''
          (page_options (Num 5001))) = [] \<and>
   result_class (snd (elPaginate example_decls (store_world []) analyst_user ''opencti_stix*''
          (page_options (Num 5001)))) = Some DatabaseError \<and>
   first ((page_options (Num 5001))\<lparr>option_ids := Ids_null\<rparr>) = Num 5001 \<and>
   paginate_query example_decls (store_world []) analyst_user ''opencti_stix*''
     ((page_options (Num 5001))\<lparr>option_ids := Ids_null\<rparr>)
     = Inl (TypeError ''Cannot read property length of null'') \<and>
   elPaginate example_decls (store_world []) analyst_user ''opencti_stix*''
     ((page_options (Num 5001))\<lparr>option_ids := Ids_null\<rparr>)
     = ([], Inl (TypeError ''Cannot read property length of null''))"
  using elPaginate_over_maximum [of "page_options (Num 5001)" 5001 example_decls "store_world []"
      analyst_user "''opencti_stix*''"]
    elPaginate_over_maximum [of "(page_options (Num 5001))\<lparr>option_ids := Ids_null\<rparr>" 5001
      example_decls "store_world []" analyst_user "''opencti_stix*''"
      "TypeError ''Cannot read property length of null''"]
    analyst_page [of "Num 5001"] analyst_page_null_ids [of "Num 5001"]
  by (simp add: page_options_def example_decls_def prod_eq_iff)

theorem elPaginate_over_maximum_counterexample:
  "first (page_options (Num 5001)) = Num 5001 \<and> ES_MAX_PAGINATION example_decls = 5000 \<and>
   result_class (snd (elPaginate example_decls (store_world []) analyst_user ''opencti_stix*''
          (page_options (Num 5001)))) \<noteq> Some OutOfRangeError \<and>
   first ((page_options (Num 5001))\<lparr>option_ids := Ids_null\<rparr>) = Num 5001 \<and>
   result_class (snd (elPaginate example_decls (store_world []) analyst_user ''opencti_stix*''
          ((page_options (Num 5001))\<lparr>option_ids := Ids_null\<rparr>))) = None"
proof -
  obtain query where q: "paginate_query example_decls (store_world []) analyst_user
      ''opencti_stix*'' (page_options (Num 5001)) = Inr query"
    using analyst_page [of "Num 5001"]
    by (cases "paginate_query example_decls (store_world []) analyst_user
      ''opencti_stix*'' (page_options (Num 5001))") simp_all
  have over: "querySize (page_options (Num 5001)) > ES_MAX_PAGINATION example_decls"
    by (simp add: querySize_def first_or_default_def page_options_def example_decls_def)
  show ?thesis
    using elPaginate_over [OF q over] elPaginate_query_failed [OF analyst_page_null_ids [of "Num 5001"]]
    by (simp add: page_options_def example_decls_def)
qed

lemma histogram_filter_failure:
  "histogram_filter D f = Inl e \<Longrightarrow> failure_class e = None"
  by (auto simp: histogram_filter_def Let_def split: if_splits jsval.splits)

lemma map_filters_failure:
  "map_filters D fs = Inl e \<Longrightarrow> failure_class e = None"
  by (induction fs arbitrary: e) (auto dest: histogram_filter_failure split: sum.splits)

lemma histogramFilters_failure:
  "histogramFilters D filters = Inl e \<Longrightarrow> failure_class e = None"
  by (auto simp: histogramFilters_def dest: map_filters_failure split: option.splits)

lemma dateFormat_None:
  "(dateFormat interval = None) = (interval \<notin> {JStr ''year'', JStr ''month'', JStr ''day''})"
  by (simp add: dateFormat_def)

text \<open>
  C7, as the code has it. \<open>elHistogramCount\<close> maps the filters before it looks at the
  interval. With an interval outside year, month, day the call makes no call to the
  engine and fails: with the error of the filter mapping when that throws, with a
  FunctionalError otherwise. With an interval in that set no outcome is a
  FunctionalError, and when the filters, the target types and the access filter can be
  read the call makes exactly one search.
\<close>

theorem elHistogramCount_interval:
  "(interval \<notin> {JStr ''year'', JStr ''month'', JStr ''day''} \<longrightarrow>
      fst (elHistogramCount D W u type field interval start end toTypes filters) = [] \<and>
      isl (snd (elHistogramCount D W u type field interval start end toTypes filters)) \<and>
      (histogramFilters D filters = Inl e \<longrightarrow>
         snd (elHistogramCount D W u type field interval start end toTypes filters) = Inl e) \<and>
      (\<not> isl (histogramFilters D filters) \<longrightarrow>
         result_class (snd (elHistogramCount D W u type field interval start end toTypes filters))
           = Some FunctionalError)) \<and>
   (interval \<in> {JStr ''year'', JStr ''month'', JStr ''day''} \<longrightarrow>
      result_class (snd (elHistogramCount D W u type field interval start end toTypes filters))
        \<noteq> Some FunctionalError \<and>
      (\<not> isl (histogramFilters D filters) \<and> toTypes \<noteq> None \<and>
       \<not> isl (buildMarkingRestriction D u) \<longrightarrow>
         issued_sizes (fst (elHistogramCount D W u type field interval start end toTypes filters))
           = [None]))"
proof (intro conjI impI)
  assume out: "interval \<notin> {JStr ''year'', JStr ''month'', JStr ''day''}"
  then have d: "dateFormat interval = None" using dateFormat_None [of interval] by blast
  show "fst (elHistogramCount D W u type field interval start end toTypes filters) = []"
    by (simp add: elHistogramCount_def d split: sum.splits)
  show "isl (snd (elHistogramCount D W u type field interval start end toTypes filters))"
    by (simp add: elHistogramCount_def d split: sum.splits)
  show "snd (elHistogramCount D W u type field interval start end toTypes filters) = Inl e"
    if "histogramFilters D filters = Inl e"
    using that by (simp add: elHistogramCount_def)
  show "result_class (snd (elHistogramCount D W u type field interval start end toTypes filters))
           = Some FunctionalError"
    if "\<not> isl (histogramFilters D filters)"
    using that by (cases "histogramFilters D filters") (simp_all add: elHistogramCount_def d)
next
  assume "interval \<in> {JStr ''year'', JStr ''month'', JStr ''day''}"
  then obtain fmt where d: "dateFormat interval = Some fmt"
    using dateFormat_None [of interval] by auto
  show "result_class (snd (elHistogramCount D W u type field interval start end toTypes filters))
        \<noteq> Some FunctionalError"
    by (auto simp: elHistogramCount_def d Let_def
        dest: histogramFilters_failure buildMarkingRestriction_failure
        split: sum.splits option.splits)
  show "issued_sizes (fst (elHistogramCount D W u type field interval start end toTypes filters))
           = [None]"
    if "\<not> isl (histogramFilters D filters) \<and> toTypes \<noteq> None \<and>
       \<not> isl (buildMarkingRestriction D u)"
    using that
    by (auto simp: elHistogramCount_def d Let_def histogram_query_def
        split: sum.splits option.splits)
qed

theorem elHistogramCount_interval_witness:
  "JStr ''week'' \<notin> {JStr ''year'', JStr ''month'', JStr ''day''} \<and>
   \<not> isl (histogramFilters example_decls (Some [])) \<and>
   fst (elHistogramCount example_decls (store_world []) analyst_user (JStr ''Report'')
          ''created_at'' (JStr ''week'') JNull JNull (Some []) (Some [])) = [] \<and>
   result_class (snd (elHistogramCount example_decls (store_world []) analyst_user (JStr ''Report'')
          ''created_at'' (JStr ''week'') JNull JNull (Some []) (Some []))) = Some FunctionalError \<and>
   histogramFilters example_decls (Some [JNull])
     = Inl (TypeError ''Cannot destructure property isRelation of f'') \<and>
   snd (elHistogramCount example_decls (store_world []) analyst_user (JStr ''Report'')
          ''created_at'' (JStr ''week'') JNull JNull (Some []) (Some [JNull]))
     = Inl (TypeError ''Cannot destructure property isRelation of f'') \<and>
   JStr ''month'' \<in> {JStr ''year'', JStr ''month'', JStr ''day''} \<and>
   \<not> isl (buildMarkingRestriction example_decls analyst_user) \<and>
   issued_sizes (fst (elHistogramCount example_decls (store_world []) analyst_user (JStr ''Report'')
          ''created_at'' (JStr ''month'') JNull JNull (Some []) (Some []))) = [None] \<and>
   result_class (snd (elHistogramCount example_decls (store_world []) analyst_user (JStr ''Report'')
          ''created_at'' (JStr ''month'') JNull JNull (Some []) (Some []))) \<noteq> Some FunctionalError"
  using elHistogramCount_interval [where interval = "JStr ''week''" and D = example_decls
      and W = "store_world []" and u = analyst_user and type = "JStr ''Report''"
      and field = "''created_at''" and start = JNull and ?end = JNull and toTypes = "Some []"
      and filters = "Some []"]
    elHistogramCount_interval [where interval = "JStr ''week''" and D = example_decls
      and W = "store_world []" and u = analyst_user and type = "JStr ''Report''"
      and field = "''created_at''" and start = JNull and ?end = JNull and toTypes = "Some []"
      and filters = "Some [JNull]"
      and e = "TypeError ''Cannot destructure property isRelation of f''"]
    elHistogramCount_interval [where interval = "JStr ''month''" and D = example_decls
      and W = "store_world []" and u = analyst_user and type = "JStr ''Report''"
      and field = "''created_at''" and start = JNull and ?end = JNull and toTypes = "Some []"
      and filters = "Some []"]
  by (simp add: histogramFilters_def histogram_filter_def analyst_restriction)

text \<open>
  The claim's words fail where the filters cannot be mapped: with the filters left out,
  or with a \<^verbatim>\<open>null\<close> filter, and the interval \<^verbatim>\<open>week\<close>, the outcome is a TypeError.
\<close>

theorem elHistogramCount_interval_counterexample:
  "dateFormat (JStr ''week'') = None \<and>
   elHistogramCount example_decls (store_world []) analyst_user (JStr ''Report'')
          ''created_at'' (JStr ''week'') JNull JNull (Some []) None
     = ([], Inl (TypeError ''Cannot read property map of undefined'')) \<and>
   result_class (snd (elHistogramCount example_decls (store_world []) analyst_user (JStr ''Report'')
          ''created_at'' (JStr ''week'') JNull JNull (Some []) None)) \<noteq> Some FunctionalError \<and>
   result_class (snd (elHistogramCount example_decls (store_world []) analyst_user (JStr ''Report'')
          ''created_at'' (JStr ''week'') JNull JNull (Some []) (Some [JNull])))
     \<noteq> Some FunctionalError"
  by (simp add: elHistogramCount_def histogramFilters_def histogram_filter_def dateFormat_def)

lemma elPaginate_failure_with_causes:
  assumes "paginate_query D W u indexName options = Inr query"
    and "querySize options \<le> ES_MAX_PAGINATION D"
    and "el_search W query = Inl err"
    and "root_cause err = Some causes"
  shows "elPaginate D W u indexName options =
     (if \<forall>r \<in> set causes. sublist ''No mapping found for'' r \<or> sublist ''no such index'' r
      then ([Search query],
            Inr (if connectionFormat options then Connection (Num 0) JNull [] 0 else Elements []))
      else ([Search query, LogError ''[ELASTICSEARCH] Paginate fail''], Inl (EngineFailure err)))"
  using elPaginate_search_failed [OF assms(1-3)] paginate_catch_causes [OF assms(4)]
  by (simp add: invalidMappingCause_def empty_result_def)

lemma elPaginate_failure_without_causes:
  assumes "paginate_query D W u indexName options = Inr query"
    and "querySize options \<le> ES_MAX_PAGINATION D"
    and "el_search W query = Inl err"
    and "root_cause err = None"
  shows "elPaginate D W u indexName options =
           ([Search query], Inl (TypeError ''Cannot read property of undefined''))"
  using elPaginate_search_failed [OF assms(1-3)] paginate_catch_no_causes [OF assms(4)]
  by simp

lemma invalidMappingCause_examples:
  "sublist ''no such index'' ''no such index [opencti_stix_domain_objects]''"
  "sublist ''no such index'' ''no such index [opencti_history]''"
  "\<not> sublist ''no such index'' ''failed to parse date field''"
  "\<not> sublist ''No mapping found for'' ''failed to parse date field''"
  "sublist ''No mapping found for'' ''No mapping found for [created_at] in order to sort on''"
  by (simp_all add: sublist_code)

text \<open>
  C8. The search of \<open>elPaginate\<close> rejected with an error that carries no response of the
  engine (a refused connection): the handler reads the root causes of a body that is not
  there and throws a TypeError, so the error is neither swallowed nor logged nor
  re-raised as it is. For contrast, an error whose one root cause is a missing index or a
  missing mapping is swallowed and the empty page (or the empty list) returned, and an
  error with another root cause is logged and re-raised as it is.
\<close>

theorem elPaginate_search_failure_without_response:
  "root_cause connection_error = None \<and>
   snd (elPaginate example_decls (failing_world connection_error) analyst_user ''opencti_stix*''
          (page_options Undefined)) = Inl (TypeError ''Cannot read property of undefined'') \<and>
   snd (elPaginate example_decls (failing_world connection_error) analyst_user ''opencti_stix*''
          (page_options Undefined)) \<noteq> Inl (EngineFailure connection_error) \<and>
   LogError ''[ELASTICSEARCH] Paginate fail'' \<notin>
     set (fst (elPaginate example_decls (failing_world connection_error) analyst_user
                 ''opencti_stix*'' (page_options Undefined))) \<and>
   snd (elPaginate example_decls (failing_world missing_index_error) analyst_user ''opencti_stix*''
          (page_options Undefined)) = Inr (Connection (Num 0) JNull [] 0) \<and>
   snd (elPaginate example_decls (failing_world missing_index_error) analyst_user ''opencti_stix*''
          ((page_options Undefined)\<lparr>connectionFormat := False\<rparr>)) = Inr (Elements []) \<and>
   snd (elPaginate example_decls (failing_world missing_mapping_error) analyst_user ''opencti_stix*''
          (page_options Undefined)) = Inr (Connection (Num 0) JNull [] 0) \<and>
   snd (elPaginate example_decls (failing_world parse_error) analyst_user ''opencti_stix*''
          (page_options Undefined)) = Inl (EngineFailure parse_error) \<and>
   LogError ''[ELASTICSEARCH] Paginate fail'' \<in>
     set (fst (elPaginate example_decls (failing_world parse_error) analyst_user
                 ''opencti_stix*'' (page_options Undefined)))"
proof -
  have q: "\<exists>query. paginate_query example_decls (failing_world err) analyst_user ''opencti_stix*''
             ((page_options Undefined)\<lparr>connectionFormat := cf\<rparr>) = Inr query" for err cf
    by (simp add: paginate_query_def paginate_must_def searchAfter_def ids_clause_def
        analyst_restriction page_options_def store_world_def failing_world_def)
  have s: "querySize ((page_options Undefined)\<lparr>connectionFormat := cf\<rparr>)
             \<le> ES_MAX_PAGINATION example_decls" for cf
    by (simp add: querySize_def first_or_default_def page_options_def example_decls_def)
  have f: "el_search (failing_world err) query = Inl err" for err query
    by (simp add: failing_world_def)
  have p: "(page_options Undefined)\<lparr>connectionFormat := True\<rparr> = page_options Undefined"
    by (simp add: page_options_def)
  from q [of connection_error True] obtain q1 where q1:
    "paginate_query example_decls (failing_world connection_error) analyst_user ''opencti_stix*''
       (page_options Undefined) = Inr q1"
    by (auto simp: p)
  from q [of missing_index_error True] obtain q2 where q2:
    "paginate_query example_decls (failing_world missing_index_error) analyst_user
       ''opencti_stix*'' (page_options Undefined) = Inr q2"
    by (auto simp: p)
  from q [of missing_index_error False] obtain q3 where q3:
    "paginate_query example_decls (failing_world missing_index_error) analyst_user
       ''opencti_stix*'' ((page_options Undefined)\<lparr>connectionFormat := False\<rparr>) = Inr q3"
    by auto
  from q [of missing_mapping_error True] obtain q5 where q5:
    "paginate_query example_decls (failing_world missing_mapping_error) analyst_user
       ''opencti_stix*'' (page_options Undefined) = Inr q5"
    by (auto simp: p)
  have c5: "root_cause missing_mapping_error
              = Some [''No mapping found for [created_at] in order to sort on'']"
    by (simp add: missing_mapping_error_def)
  from q [of parse_error True] obtain q4 where q4:
    "paginate_query example_decls (failing_world parse_error) analyst_user ''opencti_stix*''
       (page_options Undefined) = Inr q4"
    by (auto simp: p)
  have c1: "root_cause connection_error = None"
    by (simp add: connection_error_def)
  have c2: "root_cause missing_index_error = Some [''no such index [opencti_stix_domain_objects]'']"
    by (simp add: missing_index_error_def)
  have c4: "root_cause parse_error
              = Some [''no such index [opencti_history]'', ''failed to parse date field'']"
    by (simp add: parse_error_def)
  note s' = s [of True, unfolded p]
  have r1: "elPaginate example_decls (failing_world connection_error) analyst_user
              ''opencti_stix*'' (page_options Undefined)
            = ([Search q1], Inl (TypeError ''Cannot read property of undefined''))"
    by (rule elPaginate_failure_without_causes [OF q1 s' f c1])
  have r2: "snd (elPaginate example_decls (failing_world missing_index_error) analyst_user
              ''opencti_stix*'' (page_options Undefined)) = Inr (Connection (Num 0) JNull [] 0)"
    using elPaginate_failure_with_causes [OF q2 s' f c2]
    by (simp add: invalidMappingCause_examples page_options_def)
  have r3: "snd (elPaginate example_decls (failing_world missing_index_error) analyst_user
              ''opencti_stix*'' ((page_options Undefined)\<lparr>connectionFormat := False\<rparr>))
            = Inr (Elements [])"
    using elPaginate_failure_with_causes [OF q3 s f c2]
    by (simp add: invalidMappingCause_examples page_options_def)
  have r4: "elPaginate example_decls (failing_world parse_error) analyst_user
              ''opencti_stix*'' (page_options Undefined)
            = ([Search q4, LogError ''[ELASTICSEARCH] Paginate fail''],
               Inl (EngineFailure parse_error))"
    using elPaginate_failure_with_causes [OF q4 s' f c4]
    by (simp add: invalidMappingCause_examples)
  have r5: "snd (elPaginate example_decls (failing_world missing_mapping_error) analyst_user
              ''opencti_stix*'' (page_options Undefined)) = Inr (Connection (Num 0) JNull [] 0)"
    using elPaginate_failure_with_causes [OF q5 s' f c5]
    by (simp add: invalidMappingCause_examples page_options_def)
  show ?thesis
    by (simp add: r1 r2 r3 r4 r5 c1)
qed

text \<open>
  C10. \<open>elPaginate\<close> takes the default page size 200 only when \<open>first\<close> is left out:
  with \<open>first\<close> given as null or 0 the size is 10, and with any other number it is that
  number. Every search the call issues has that size; and when the cursor can be decoded,
  the clauses can be built and the size passes the maximum check, exactly one search is
  issued.
\<close>

theorem elPaginate_page_size:
  "(first options = Undefined \<longrightarrow> querySize options = 200) \<and>
   (first options = Null \<or> first options = Num 0 \<longrightarrow> querySize options = 10) \<and>
   (first options = Num n \<and> n \<noteq> 0 \<longrightarrow> querySize options = n) \<and>
   set (issued_sizes (fst (elPaginate D W u indexName options))) \<subseteq> {Some (querySize options)} \<and>
   (\<not> isl (paginate_query D W u indexName options) \<and> querySize options \<le> ES_MAX_PAGINATION D \<longrightarrow>
      issued_sizes (fst (elPaginate D W u indexName options)) = [Some (querySize options)])"
proof -
  have a: "set (issued_sizes (fst (elPaginate D W u indexName options)))
             \<subseteq> {Some (querySize options)}"
  proof (cases "paginate_query D W u indexName options")
    case (Inl e)
    from elPaginate_query_failed [OF Inl] show ?thesis by simp
  next
    case (Inr query)
    show ?thesis
    proof (cases "querySize options > ES_MAX_PAGINATION D")
      case True
      from elPaginate_over [OF Inr True] show ?thesis by simp
    next
      case False
      then have "querySize options \<le> ES_MAX_PAGINATION D" by simp
      from elPaginate_sizes [OF Inr this] show ?thesis by simp
    qed
  qed
  have b: "issued_sizes (fst (elPaginate D W u indexName options)) = [Some (querySize options)]"
    if "\<not> isl (paginate_query D W u indexName options)"
      and "querySize options \<le> ES_MAX_PAGINATION D"
    using that elPaginate_sizes [of D W u indexName options]
    by (cases "paginate_query D W u indexName options") simp_all
  show ?thesis
    using a b by (auto simp: querySize_def first_or_default_def)
qed

theorem elPaginate_page_size_witness:
  "querySize (page_options Undefined) = 200 \<and>
   querySize (page_options Null) = 10 \<and>
   querySize (page_options (Num 0)) = 10 \<and>
   querySize (page_options (Num 25)) = 25 \<and>
   \<not> isl (paginate_query example_decls (store_world []) analyst_user ''opencti_stix*''
            (page_options Undefined)) \<and>
   issued_sizes (fst (elPaginate example_decls (store_world []) analyst_user ''opencti_stix*''
      (page_options Undefined))) = [Some 200] \<and>
   issued_sizes (fst (elPaginate example_decls (store_world []) analyst_user ''opencti_stix*''
      (page_options Null))) = [Some 10] \<and>
   issued_sizes (fst (elPaginate example_decls (store_world []) analyst_user ''opencti_stix*''
      (page_options (Num 0)))) = [Some 10] \<and>
   issued_sizes (fst (elPaginate example_decls (store_world []) analyst_user ''opencti_stix*''
      ((page_options Null)\<lparr>option_ids := Ids_null\<rparr>))) = []"
proof -
  have n: "issued_sizes (fst (elPaginate example_decls (store_world []) analyst_user
      ''opencti_stix*'' ((page_options Null)\<lparr>option_ids := Ids_null\<rparr>))) = []"
    using elPaginate_query_failed [OF analyst_page_null_ids [of Null]] by simp
  show ?thesis
    using elPaginate_page_size [of "page_options Undefined" 25 example_decls "store_world []"
        analyst_user "''opencti_stix*''"]
      elPaginate_page_size [of "page_options Null" 25 example_decls "store_world []"
        analyst_user "''opencti_stix*''"]
      elPaginate_page_size [of "page_options (Num 0)" 25 example_decls "store_world []"
        analyst_user "''opencti_stix*''"]
      elPaginate_page_size [of "page_options (Num 25)" 25 example_decls "store_world []"
        analyst_user "''opencti_stix*''"]
      analyst_page [of Undefined] analyst_page [of Null] analyst_page [of "Num 0"] n
    by (simp add: page_options_def example_decls_def)
qed

section \<open>The cache path of the lookup\<close>

lemma R_splitEvery_Nil: "R_splitEvery n [] = []"
  by (simp add: R_splitEvery.simps)

lemma R_splitEvery_nonempty: "0 < n \<Longrightarrow> xs \<noteq> [] \<Longrightarrow> R_splitEvery n xs \<noteq> []"
  by (subst R_splitEvery.simps) simp

lemma R_splitEvery_short:
  "0 < n \<Longrightarrow> xs \<noteq> [] \<Longrightarrow> length xs \<le> n \<Longrightarrow> R_splitEvery n xs = [xs]"
  by (subst R_splitEvery.simps) (simp add: R_splitEvery_Nil)

lemma set_update_subset: "set (AList.update k v al) \<subseteq> insert (k, v) (set al)"
  by (induction al) auto

lemma uniqByInternal_values:
  assumes "(k', e) \<in> set (foldl (\<lambda>acc (k, v). case v of Some i \<Rightarrow> AList.update (internal_id i) i acc
                                 | None \<Rightarrow> acc) acc xs)"
  shows "(k', e) \<in> set acc \<or> (\<exists>k. (k, Some e) \<in> set xs)"
  using assms
proof (induction xs arbitrary: acc)
  case Nil
  then show ?case by simp
next
  case (Cons x xs)
  obtain k v where x: "x = (k, v)" by (cases x)
  show ?case
  proof (cases v)
    case None
    with Cons x show ?thesis by fastforce
  next
    case (Some i)
    with Cons.prems x
    have "(k', e) \<in> set (AList.update (internal_id i) i acc) \<or> (\<exists>k. (k, Some e) \<in> set xs)"
      using Cons.IH [of "AList.update (internal_id i) i acc"] by simp
    moreover have "set (AList.update (internal_id i) i acc) \<subseteq> insert (internal_id i, i) (set acc)"
      by (rule set_update_subset)
    ultimately show ?thesis using x Some by auto
  qed
qed

lemma loadFromCache_accessible:
  assumes "(k, e) \<in> set (snd (loadFromCache D W u ids type))"
  shows "cache_filter D u type (Some e)"
proof -
  let ?accessible = "filter (\<lambda>(k, v). cache_filter D u type v)
                         (case cacheGet W ids of None \<Rightarrow> [] | Some d \<Rightarrow> d)"
  from assms have "(k, e) \<in> set (foldl (\<lambda>acc (k, v). case v of
      Some i \<Rightarrow> AList.update (internal_id i) i acc | None \<Rightarrow> acc) [] ?accessible)"
    by (simp add: loadFromCache_def Let_def)
  from uniqByInternal_values [OF this]
  have "\<exists>k'. (k', Some e) \<in> set ?accessible" by simp
  then show ?thesis by auto
qed

lemma cache_filter_markings:
  assumes "cache_filter D u type (Some e)" "\<not> isBypass D u"
    "object_marking_refs e = Some ms"
  shows "set ms \<subseteq> marking_internal_id ` set (allowed_marking u)"
  using assms
  by (auto simp: cache_filter_def isUserHaveAccess_def Let_def list_all_iff split: if_splits)

lemma js_assign_Nil: "js_assign a [] = a"
  by (simp add: js_assign_def)

lemma js_assign_subset: "set (js_assign a b) \<subseteq> set a \<union> set b"
proof (induction b arbitrary: a)
  case Nil
  then show ?case by (simp add: js_assign_def)
next
  case (Cons x b)
  obtain k v where x: "x = (k, v)" by (cases x)
  have "set (js_assign (AList.update k v a) b) \<subseteq> set (AList.update k v a) \<union> set b"
    by (rule Cons.IH)
  moreover have "set (AList.update k v a) \<subseteq> insert (k, v) (set a)"
    by (rule set_update_subset)
  moreover have "js_assign a (x # b) = js_assign (AList.update k v a) b"
    by (simp add: js_assign_def x)
  ultimately show ?case using x by auto
qed

lemma elFindByIds_values:
  assumes "snd (elFindByIds D W u ids opts) = Inr res"
    and "snd (index_lookup D W u ids opts) = Inr elasticHits"
  shows "set (Object_values res) \<subseteq>
           snd ` set (snd (loadFromCache D W u ids (find_type opts))) \<union> snd ` set elasticHits"
proof (cases "length (filter (isNotEmptyField_id D) ids) = 0")
  case True
  with assms(1) have "Object_values res = []"
    by (auto simp: elFindByIds_def split: if_splits)
  then show ?thesis by simp
next
  case False
  with assms have "Object_values res =
      map snd (js_assign (snd (loadFromCache D W u ids (find_type opts))) elasticHits)"
    by (auto simp: elFindByIds_def Let_def split: if_splits)
  then have "set (Object_values res) =
      snd ` set (js_assign (snd (loadFromCache D W u ids (find_type opts))) elasticHits)"
    by simp
  then show ?thesis
    using js_assign_subset [of "snd (loadFromCache D W u ids (find_type opts))" elasticHits]
    by auto
qed

text \<open>
  C9. For every user without the bypass capability: an element that \<open>loadFromCache\<close>
  hands on as accessible and that carries an \<open>object_marking_refs\<close> list has every
  marking id of that list among the ids of the user's \<open>allowed_marking\<close>; and every
  element that \<open>elFindByIds\<close> returns and that is not one of the elements found in the
  index (\<^verbatim>\<open>elasticHits\<close>) is such an element, whether or not the index was searched
  as well. A cached element with a marking the user does not hold is therefore never
  returned, whatever the marking's group.
\<close>

theorem elFindByIds_cache_markings:
  "(\<not> isBypass D u \<and> (k, e) \<in> set (snd (loadFromCache D W u ids type)) \<and>
    object_marking_refs e = Some ms \<longrightarrow>
      set ms \<subseteq> marking_internal_id ` set (allowed_marking u)) \<and>
   (\<not> isBypass D u \<and> snd (elFindByIds D W u ids opts) = Inr res \<and>
    snd (index_lookup D W u ids opts) = Inr elasticHits \<and>
    e \<in> set (Object_values res) \<and> e \<notin> snd ` set elasticHits \<and>
    object_marking_refs e = Some ms \<longrightarrow>
      set ms \<subseteq> marking_internal_id ` set (allowed_marking u))"
proof (intro conjI impI; elim conjE)
  assume "\<not> isBypass D u" "(k, e) \<in> set (snd (loadFromCache D W u ids type))"
    "object_marking_refs e = Some ms"
  then show "set ms \<subseteq> marking_internal_id ` set (allowed_marking u)"
    using cache_filter_markings loadFromCache_accessible by blast
next
  assume a: "\<not> isBypass D u" "snd (elFindByIds D W u ids opts) = Inr res"
    "snd (index_lookup D W u ids opts) = Inr elasticHits"
    "e \<in> set (Object_values res)" "e \<notin> snd ` set elasticHits"
    "object_marking_refs e = Some ms"
  from elFindByIds_values [OF a(2,3)] a(4,5)
  obtain k' where "(k', e) \<in> set (snd (loadFromCache D W u ids (find_type opts)))"
    by force
  with a show "set ms \<subseteq> marking_internal_id ` set (allowed_marking u)"
    using cache_filter_markings loadFromCache_accessible by blast
qed

lemma cached_world_cache:
  "loadFromCache example_decls cached_world analyst_user ids None =
     ([''E1'', ''E2''], [(''E1'', marked_entity ''E1'' [''m-green''])])"
  by (simp add: loadFromCache_def cache_filter_def isUserHaveAccess_def
      isBypass_def Let_def cached_world_def store_world_def
      example_decls_def analyst_user_def tlp_green_def pap_amber_def tlp_red_def
      marked_entity_def entity_def)

lemma cached_world_index:
  "snd (index_lookup example_decls cached_world analyst_user
          [Some ''E1'', Some ''E2'', Some ''X''] default_find) = Inr [(''X'', entity ''X'')]"
proof -
  let ?ids = "[Some ''E1'', Some ''E2'', Some ''X'']"
  have fq: "find_query example_decls analyst_user default_find [Some ''X'']
            = Inr (projr (find_query example_decls analyst_user default_find [Some ''X'']))"
    by (simp add: find_query_def analyst_restriction Let_def)
  define q where "q = projr (find_query example_decls analyst_user default_find [Some ''X''])"
  have q: "find_query example_decls analyst_user default_find [Some ''X''] = Inr q"
    using fq unfolding q_def .
  have r: "requested_ids q = [''X'', ''X'', ''X'']"
    unfolding q_def
    by (simp add: requested_ids_def find_query_def analyst_restriction term_ids_def js_id_def
        Let_def default_find_def)
      (simp add: example_decls_def)
  have s: "el_search cached_world q
             = Inr \<lparr>hits = [hit_of (entity ''X'')], total = 0, buckets = []\<rparr>"
    by (simp add: cached_world_def store_world_def r entity_def)
  have c: "elDataConverter cached_world (hit_of (entity ''X'')) = Inr (entity ''X'')"
    by (simp add: cached_world_def store_world_def hit_of_def js_get_def entity_def)
  have p: "isNotEmptyField_id example_decls (Some ''E1'')"
    "isNotEmptyField_id example_decls (Some ''E2'')"
    "isNotEmptyField_id example_decls (Some ''X'')"
    by (simp_all add: example_decls_def)
  have t: "find_type default_find = None"
    by (simp add: default_find_def)
  have ie: "internal_id (entity i) = i" for i
    by (simp add: entity_def)
  show ?thesis
    by (simp add: index_lookup_def p t cached_world_cache q s c Let_def R_splitEvery_short
        MAX_SPLIT_def js_assign_def ie)
qed

lemma cached_world_lookup:
  "snd (elFindByIds example_decls cached_world analyst_user
          [Some ''E1'', Some ''E2'', Some ''X''] default_find)
     = Inr (AsList [marked_entity ''E1'' [''m-green''], entity ''X''])"
proof -
  have p: "isNotEmptyField_id example_decls (Some ''E1'')"
    by (simp add: example_decls_def)
  have t: "find_type default_find = None" "\<not> toMap default_find"
    by (simp_all add: default_find_def)
  show ?thesis
    by (simp add: elFindByIds_def p t cached_world_cache cached_world_index Let_def
        js_assign_def)
qed

theorem elFindByIds_cache_markings_witness:
  "\<not> isBypass example_decls analyst_user \<and>
   snd (elFindByIds example_decls cached_world analyst_user
          [Some ''E1'', Some ''E2'', Some ''X''] default_find)
     = Inr (AsList [marked_entity ''E1'' [''m-green''], entity ''X'']) \<and>
   snd (index_lookup example_decls cached_world analyst_user
          [Some ''E1'', Some ''E2'', Some ''X''] default_find) = Inr [(''X'', entity ''X'')] \<and>
   (''E1'', marked_entity ''E1'' [''m-green'']) \<in>
     set (snd (loadFromCache example_decls cached_world analyst_user
                 [Some ''E1'', Some ''E2'', Some ''X''] None)) \<and>
   marked_entity ''E1'' [''m-green''] \<noteq> entity ''X'' \<and>
   object_marking_refs (marked_entity ''E1'' [''m-green'']) = Some [''m-green''] \<and>
   set [''m-green''] \<subseteq> marking_internal_id ` set (allowed_marking analyst_user) \<and>
   \<not> set [''m-green'', ''m-other''] \<subseteq> marking_internal_id ` set (allowed_marking analyst_user) \<and>
   (case buildMarkingRestriction example_decls analyst_user of
      Inl e \<Rightarrow> False
    | Inr fr \<Rightarrow> passes (marked_doc [''m-green'', ''m-other'']) fr)"
proof -
  have b: "\<not> isBypass example_decls analyst_user"
    by (simp add: isBypass_def example_decls_def analyst_user_def)
  have m: "object_marking_refs (marked_entity ''E1'' [''m-green'']) = Some [''m-green'']"
    by (simp add: marked_entity_def)
  have d: "marked_entity ''E1'' [''m-green''] \<noteq> entity ''X''"
    by (simp add: marked_entity_def entity_def)
  have i: "(''E1'', marked_entity ''E1'' [''m-green'']) \<in>
     set (snd (loadFromCache example_decls cached_world analyst_user
                 [Some ''E1'', Some ''E2'', Some ''X''] None))"
    by (simp add: cached_world_cache)
  have s: "set [''m-green''] \<subseteq> marking_internal_id ` set (allowed_marking analyst_user)"
    using elFindByIds_cache_markings [where D = example_decls and u = analyst_user
        and k = "''E1''" and e = "marked_entity ''E1'' [''m-green'']" and W = cached_world
        and ids = "[Some ''E1'', Some ''E2'', Some ''X'']" and type = None
        and ms = "[''m-green'']" and opts = default_find
        and res = "AsList [marked_entity ''E1'' [''m-green''], entity ''X'']"
        and elasticHits = "[(''X'', entity ''X'')]"]
      b m i d cached_world_lookup cached_world_index
    by simp
  have n: "\<not> set [''m-green'', ''m-other''] \<subseteq> marking_internal_id ` set (allowed_marking analyst_user)"
    by (simp add: analyst_user_def tlp_green_def pap_amber_def)
  have p: "case buildMarkingRestriction example_decls analyst_user of
      Inl e \<Rightarrow> False
    | Inr fr \<Rightarrow> passes (marked_doc [''m-green'', ''m-other'']) fr"
    by (simp add: analyst_restriction passes_def marked_doc_def)
  show ?thesis using b m i d s n p cached_world_lookup cached_world_index by simp
qed

section \<open>Cascading deletion\<close>

text \<open>
  C4. Deleting an empty batch performs no write: \<open>elDeleteElements\<close> on the empty list
  returns at once with the empty result and makes no call at all (no cleanup update, no
  relationship deletion, no entity deletion), and \<open>elDeleteInstanceIds\<close> on the empty
  list issues no bulk call.
\<close>

theorem elDeleteElements_empty_batch:
  "elDeleteElements D W u [] = Some ([], Inr []) \<and> elDeleteInstanceIds W [] = ([], None)"
  by (simp add: elDeleteElements_def elDeleteInstanceIds_def)

theorem elDeleteElements_empty_batch_witness:
  "elDeleteElements example_decls (store_world simple_store) analyst_user [] = Some ([], Inr []) \<and>
   bulk_bodies (fst (elDeleteInstanceIds (store_world simple_store) [])) = []"
  using elDeleteElements_empty_batch [of example_decls "store_world simple_store" analyst_user]
  by simp

lemma not_prototype: "\<not> Map_property_truthy c ''A''" "\<not> Map_property_truthy c ''B''"
  by (simp_all add: Map_property_truthy_def prototype_members_def)

lemma cyc_hits:
  "elList_relations (store_world cyclic_store) u [''E''] = [relationship ''A'' ''E'' ''B'']"
  "elList_relations (store_world cyclic_store) u [''A''] = [relationship ''B'' ''A'' ''X'']"
  "elList_relations (store_world cyclic_store) u [''B''] = [relationship ''A'' ''E'' ''B'']"
  by (simp_all add: store_world_def cyclic_store_def references_def relationship_def entity_def)

lemma collect_one:
  assumes "elList_relations W u ids = [r]" "\<not> Map_property_truthy cache (internal_id r)"
  shows "collect_hits W u ids elements lvl cache =
     (r\<lparr>level := Some lvl\<rparr> # elements, [internal_id r], Map_set (internal_id r) [] cache)"
  using assms
  by (simp add: collect_hits_def collect_group_def R_splitEvery_short MAX_JS_PARAMS_def)

lemma bind_SomeD: "Option.bind m f = Some y \<Longrightarrow> \<exists>x. m = Some x"
  by (cases m) auto

lemma step_one:
  assumes hits: "elList_relations W u ids = [r]"
    and np: "\<not> Map_property_truthy cache (internal_id r)"
    and body: "(case [ids] of [] \<Rightarrow> Some (elements, cache)
      | gIds # later \<Rightarrow>
          Option.bind
           (if 0 < length (fst (snd (collect_hits W u gIds elements lvl cache)))
            then f W u
                  (R_splitEvery MAX_SPLIT (fst (snd (collect_hits W u gIds elements lvl cache))))
                  (fst (collect_hits W u gIds elements lvl cache)) (lvl + 1)
                  (snd (snd (collect_hits W u gIds elements lvl cache)))
            else Some (fst (collect_hits W u gIds elements lvl cache),
                   snd (snd (collect_hits W u gIds elements lvl cache))))
           (\<lambda>st. f W u later (fst st) lvl (snd st))) = Some y"
  shows "\<exists>st. f W u [[internal_id r]] (r\<lparr>level := Some lvl\<rparr> # elements) (lvl + 1)
           (Map_set (internal_id r) [] cache) = Some st"
proof -
  have s: "R_splitEvery MAX_SPLIT [internal_id r] = [[internal_id r]]"
    by (simp add: R_splitEvery_short MAX_SPLIT_def)
  from body show ?thesis
    by (auto simp: collect_one [OF hits np] s bind_eq_Some_conv)
qed

lemma cyclic_never_returns:
  assumes "getRelatedRelations_groups W u groups elements lvl cache = Some y"
  shows "\<not> (W = store_world cyclic_store \<and> groups \<in> {[[''E'']], [[''A'']], [[''B'']]})"
proof (rule getRelatedRelations_groups.raw_induct
    [where P = "\<lambda>W u groups elements lvl cache y.
        \<not> (W = store_world cyclic_store \<and> groups \<in> {[[''E'']], [[''A'']], [[''B'']]})",
      OF _ assms])
  fix f W u groups elements lvl cache y
  assume IH: "\<And>W u groups elements lvl cache y.
      f W u groups elements lvl cache = Some y \<Longrightarrow>
      \<not> (W = store_world cyclic_store \<and> groups \<in> {[[''E'']], [[''A'']], [[''B'']]})"
    and body: "(case groups of [] \<Rightarrow> Some (elements, cache)
      | gIds # later \<Rightarrow>
          Option.bind
           (if 0 < length (fst (snd (collect_hits W u gIds elements lvl cache)))
            then f W u
                  (R_splitEvery MAX_SPLIT (fst (snd (collect_hits W u gIds elements lvl cache))))
                  (fst (collect_hits W u gIds elements lvl cache)) (lvl + 1)
                  (snd (snd (collect_hits W u gIds elements lvl cache)))
            else Some (fst (collect_hits W u gIds elements lvl cache),
                   snd (snd (collect_hits W u gIds elements lvl cache))))
           (\<lambda>st. f W u later (fst st) lvl (snd st))) = Some y"
  show "\<not> (W = store_world cyclic_store \<and> groups \<in> {[[''E'']], [[''A'']], [[''B'']]})"
  proof
    assume a: "W = store_world cyclic_store \<and> groups \<in> {[[''E'']], [[''A'']], [[''B'']]}"
    then have W: "W = store_world cyclic_store" by simp
    from a consider "groups = [[''E'']]" | "groups = [[''A'']]" | "groups = [[''B'']]" by auto
    then show False
    proof cases
      case 1
      have "\<exists>st. f W u [[internal_id (relationship ''A'' ''E'' ''B'')]]
          ((relationship ''A'' ''E'' ''B'')\<lparr>level := Some lvl\<rparr> # elements) (lvl + 1)
          (Map_set (internal_id (relationship ''A'' ''E'' ''B'')) [] cache) = Some st"
        by (rule step_one [where f = f and W = W and u = u and ids = "[''E'']" and r = "relationship ''A'' ''E'' ''B''"
              and elements = elements and lvl = lvl and cache = cache and y = y,
              OF _ _ body [unfolded 1]])
          (simp_all add: W cyc_hits not_prototype relationship_def)
      then obtain st where "f W u [[''A'']]
          ((relationship ''A'' ''E'' ''B'')\<lparr>level := Some lvl\<rparr> # elements) (lvl + 1)
          (Map_set ''A'' [] cache) = Some st"
        by (auto simp: relationship_def)
      from IH [OF this] W show False by simp
    next
      case 2
      have "\<exists>st. f W u [[internal_id (relationship ''B'' ''A'' ''X'')]]
          ((relationship ''B'' ''A'' ''X'')\<lparr>level := Some lvl\<rparr> # elements) (lvl + 1)
          (Map_set (internal_id (relationship ''B'' ''A'' ''X'')) [] cache) = Some st"
        by (rule step_one [where f = f and W = W and u = u and ids = "[''A'']" and r = "relationship ''B'' ''A'' ''X''"
              and elements = elements and lvl = lvl and cache = cache and y = y,
              OF _ _ body [unfolded 2]])
          (simp_all add: W cyc_hits not_prototype relationship_def)
      then obtain st where "f W u [[''B'']]
          ((relationship ''B'' ''A'' ''X'')\<lparr>level := Some lvl\<rparr> # elements) (lvl + 1)
          (Map_set ''B'' [] cache) = Some st"
        by (auto simp: relationship_def)
      from IH [OF this] W show False by simp
    next
      case 3
      have "\<exists>st. f W u [[internal_id (relationship ''A'' ''E'' ''B'')]]
          ((relationship ''A'' ''E'' ''B'')\<lparr>level := Some lvl\<rparr> # elements) (lvl + 1)
          (Map_set (internal_id (relationship ''A'' ''E'' ''B'')) [] cache) = Some st"
        by (rule step_one [where f = f and W = W and u = u and ids = "[''B'']" and r = "relationship ''A'' ''E'' ''B''"
              and elements = elements and lvl = lvl and cache = cache and y = y,
              OF _ _ body [unfolded 3]])
          (simp_all add: W cyc_hits not_prototype relationship_def)
      then obtain st where "f W u [[''A'']]
          ((relationship ''A'' ''E'' ''B'')\<lparr>level := Some lvl\<rparr> # elements) (lvl + 1)
          (Map_set ''A'' [] cache) = Some st"
        by (auto simp: relationship_def)
      from IH [OF this] W show False by simp
    qed
  qed
qed

lemma groups_Nil: "getRelatedRelations_groups W u [] elements lvl cache = Some (elements, cache)"
  by (subst getRelatedRelations_groups.simps) simp

lemma diamond_hits:
  "elList_relations (store_world diamond_store) u [''E''] =
     [relationship ''A'' ''E'' ''X'', relationship ''B'' ''E'' ''A'']"
  "elList_relations (store_world diamond_store) u [''A'', ''B''] = [relationship ''B'' ''E'' ''A'']"
  "elList_relations (store_world diamond_store) u [''B''] = []"
  by (simp_all add: store_world_def diamond_store_def references_def relationship_def entity_def)

lemma diamond_collect:
  "collect_hits (store_world diamond_store) u [''E''] [] 0 new_Map =
     ([(relationship ''A'' ''E'' ''X'')\<lparr>level := Some 0\<rparr>,
       (relationship ''B'' ''E'' ''A'')\<lparr>level := Some 0\<rparr>],
      [''A'', ''B''], \<lparr>map_entries = [(''A'', []), (''B'', [])]\<rparr>)"
  "collect_hits (store_world diamond_store) u [''A'', ''B''] els (Suc 0) c =
     ((relationship ''B'' ''E'' ''A'')\<lparr>level := Some 1\<rparr> # els, [''B''], Map_set ''B'' [] c)"
  "collect_hits (store_world diamond_store) u [''B''] els (Suc (Suc 0)) c = (els, [], c)"
  by (simp_all add: collect_hits_def collect_group_def diamond_hits R_splitEvery_short
      R_splitEvery_Nil MAX_JS_PARAMS_def not_prototype Map_set_def new_Map_def relationship_def)

lemma diamond_run:
  "getRelationsToRemove (store_world diamond_store) u [entity ''E''] =
     Some ([(relationship ''B'' ''E'' ''A'')\<lparr>level := Some 1\<rparr>,
            (relationship ''A'' ''E'' ''X'')\<lparr>level := Some 0\<rparr>,
            (relationship ''B'' ''E'' ''A'')\<lparr>level := Some 0\<rparr>],
           \<lparr>map_entries = [(''A'', []), (''B'', [])]\<rparr>)"
proof -
  have l2: "getRelatedRelations_groups (store_world diamond_store) u [[''B'']] els (Suc (Suc 0)) c = Some (els, c)"
    for els c
    by (subst getRelatedRelations_groups.simps) (simp add: diamond_collect groups_Nil)
  have l1: "getRelatedRelations_groups (store_world diamond_store) u [[''A'', ''B'']] els (Suc 0) c =
      Some ((relationship ''B'' ''E'' ''A'')\<lparr>level := Some 1\<rparr> # els, Map_set ''B'' [] c)"
    for els c
    by (subst getRelatedRelations_groups.simps)
      (simp add: diamond_collect groups_Nil l2 R_splitEvery_short MAX_SPLIT_def)
  show ?thesis
    unfolding getRelationsToRemove_def getRelatedRelations_def
    by (subst getRelatedRelations_groups.simps)
      (simp add: diamond_collect groups_Nil l1 R_splitEvery_short MAX_SPLIT_def
        entity_def Map_set_def)
qed

lemma simple_hits:
  "elList_relations (store_world simple_store) u [''E''] = [relationship ''R'' ''E'' ''X'']"
  "elList_relations (store_world simple_store) u [''R''] = []"
  by (simp_all add: store_world_def simple_store_def references_def relationship_def entity_def)

lemma not_prototype_R: "\<not> Map_property_truthy c ''R''"
  by (simp add: Map_property_truthy_def prototype_members_def)

lemma simple_run:
  "getRelationsToRemove (store_world simple_store) u [entity ''E''] =
     Some ([(relationship ''R'' ''E'' ''X'')\<lparr>level := Some 0\<rparr>], \<lparr>map_entries = [(''R'', [])]\<rparr>)"
proof -
  have c0: "collect_hits (store_world simple_store) u [''E''] [] 0 new_Map =
      ([(relationship ''R'' ''E'' ''X'')\<lparr>level := Some 0\<rparr>], [''R''],
       \<lparr>map_entries = [(''R'', [])]\<rparr>)"
    using collect_one [OF simple_hits(1), of new_Map u "[]" 0]
    by (simp add: not_prototype_R relationship_def Map_set_def new_Map_def)
  have c1: "collect_hits (store_world simple_store) u [''R''] els (Suc 0) c = (els, [], c)" for els c
    by (simp add: collect_hits_def simple_hits R_splitEvery_Nil)
  have l1: "getRelatedRelations_groups (store_world simple_store) u [[''R'']] els (Suc 0) c = Some (els, c)"
    for els c
    by (subst getRelatedRelations_groups.simps) (simp add: c1 groups_Nil)
  show ?thesis
    unfolding getRelationsToRemove_def getRelatedRelations_def
    by (subst getRelatedRelations_groups.simps)
      (simp add: c0 groups_Nil l1 R_splitEvery_short MAX_SPLIT_def entity_def)
qed

lemma simple_impacts:
  "relsFromToImpacts example_decls \<lparr>map_entries = [(''R'', [])]\<rparr>
      [(relationship ''R'' ''E'' ''X'')\<lparr>level := Some 0\<rparr>] =
     [\<lparr>relation = (relationship ''R'' ''E'' ''X'')\<lparr>level := Some 0\<rparr>,
       isFromCleanup = True, isToCleanup = True\<rparr>]"
  by (simp add: relsFromToImpacts_def Map_has_def isImpactedTypeAndSide_def
      UNIMPACTED_ENTITIES_ROLE_def ROLE_FROM_def ROLE_TO_def example_decls_def relationship_def)

lemma simple_find:
  "\<exists>q. elFindByIds example_decls (store_world simple_store) admin_user [Some ''E'', Some ''X'']
      \<lparr>indices = READ_DATA_INDICES example_decls, toMap = False, find_type = None\<rparr> =
   ([CacheGet [Some ''E'', Some ''X''], Search q, CacheSet [entity ''E'', entity ''X'']],
    Inr (AsList [entity ''E'', entity ''X'']))"
proof -
  let ?opts = "\<lparr>indices = READ_DATA_INDICES example_decls, toMap = False, find_type = None\<rparr>"
  have b: "buildMarkingRestriction example_decls admin_user = Inr \<lparr>must = [], must_not = []\<rparr>"
    by (simp add: buildMarkingRestriction_def isBypass_def admin_user_def example_decls_def)
  have fq: "find_query example_decls admin_user ?opts [Some ''E'', Some ''X'']
            = Inr (projr (find_query example_decls admin_user ?opts [Some ''E'', Some ''X'']))"
    by (simp add: find_query_def b Let_def)
  define q where "q = projr (find_query example_decls admin_user ?opts [Some ''E'', Some ''X''])"
  have q: "find_query example_decls admin_user ?opts [Some ''E'', Some ''X''] = Inr q"
    using fq unfolding q_def .
  have r: "requested_ids q = [''E'', ''E'', ''E'', ''X'', ''X'', ''X'']"
    unfolding q_def
    by (simp add: requested_ids_def find_query_def b term_ids_def js_id_def Let_def)
      (simp add: example_decls_def)
  have s: "el_search (store_world simple_store) q =
      Inr \<lparr>hits = [hit_of (entity ''E''), hit_of (entity ''X'')], total = 0, buckets = []\<rparr>"
    by (simp add: store_world_def r simple_store_def entity_def relationship_def)
  have c: "elDataConverter (store_world simple_store) (hit_of (entity ''E'')) = Inr (entity ''E'')"
    "elDataConverter (store_world simple_store) (hit_of (entity ''X'')) = Inr (entity ''X'')"
    by (simp_all add: store_world_def simple_store_def hit_of_def js_get_def entity_def relationship_def)
  have l: "loadFromCache example_decls (store_world simple_store) admin_user [Some ''E'', Some ''X''] None = ([], [])"
    by (simp add: loadFromCache_def store_world_def)
  have p: "isNotEmptyField_id example_decls (Some ''E'')" "isNotEmptyField_id example_decls (Some ''X'')"
    by (simp_all add: example_decls_def)
  have ie: "internal_id (entity i) = i" for i
    by (simp add: entity_def)
  have "elFindByIds example_decls (store_world simple_store) admin_user [Some ''E'', Some ''X''] ?opts =
   ([CacheGet [Some ''E'', Some ''X''], Search q, CacheSet [entity ''E'', entity ''X'']],
    Inr (AsList [entity ''E'', entity ''X'']))"
    by (simp add: elFindByIds_def index_lookup_def p l q s c Let_def R_splitEvery_short
        MAX_SPLIT_def js_assign_def ie)
  then show ?thesis by blast
qed

text \<open>
  C3 on the code. With a cycle between two relationships (\<open>A\<close> has a connection to \<open>B\<close>
  and \<open>B\<close> one to \<open>A\<close>) the traversal started by deleting \<open>E\<close> never returns: the
  test \<^verbatim>\<open>!cache[f]\<close> reads a property of the Map object and is true for every id, so
  \<open>A\<close> and \<open>B\<close> are queued again and again. Without a cycle, a relationship reached on
  two paths (\<open>B\<close> in the second store) is listed twice for removal.
\<close>

theorem getRelationsToRemove_cycle_never_returns:
  "getRelationsToRemove (store_world cyclic_store) admin_user [entity ''E''] = None \<and>
   map_option (map internal_id \<circ> fst)
     (getRelationsToRemove (store_world diamond_store) admin_user [entity ''E'']) =
     Some [''B'', ''A'', ''B'']"
proof -
  have "getRelatedRelations_groups (store_world cyclic_store) admin_user [[''E'']] [] 0 new_Map = None"
  proof (cases "getRelatedRelations_groups (store_world cyclic_store) admin_user [[''E'']] [] 0 new_Map")
    case (Some y)
    from cyclic_never_returns [OF this] show ?thesis by simp
  qed simp
  then show ?thesis
    by (simp add: diamond_run)
      (simp add: getRelationsToRemove_def getRelatedRelations_def entity_def relationship_def)
qed

text \<open>
  C5 on the code. Deleting the entity \<open>E\<close>, source of the one relationship \<open>R\<close> to
  \<open>X\<close>: the map of relations to remove holds \<open>R\<close> only, so \<open>E\<close> counts as an endpoint
  that will not be removed, a cleanup is queued for it, and the first bulk write updates
  \<open>E\<close> (removing \<open>X\<close> from its reference field) before \<open>E\<close> is deleted by the last.
\<close>

theorem elDeleteElements_cleanup_of_deleted_endpoint:
  "map_option (map (\<lambda>r. (fromId (relation r), isFromCleanup r, toId (relation r), isToCleanup r)))
     (map_option (\<lambda>(relations, relationsToRemoveMap).
         relsFromToImpacts example_decls relationsToRemoveMap relations)
       (getRelationsToRemove (store_world simple_store) admin_user [entity ''E''])) =
     Some [(Some ''E'', True, Some ''X'', True)] \<and>
   map_option (bulk_bodies \<circ> fst)
     (elDeleteElements example_decls (store_world simple_store) admin_user [entity ''E'']) =
     Some [[BulkUpdateRemoveIf ''opencti_stix_domain_objects'' (Some ''E'') ''rel_uses.internal_id''
              (Some ''X''),
            BulkUpdateRemoveIf ''opencti_stix_domain_objects'' (Some ''X'') ''rel_uses.internal_id''
              (Some ''E'')],
           [BulkDelete ''opencti_stix_core_relationships'' ''R''],
           [BulkDelete ''opencti_stix_domain_objects'' ''E'']]"
proof -
  let ?R = "(relationship ''R'' ''E'' ''X'')\<lparr>level := Some 0\<rparr>"
  let ?c = "\<lparr>relation = ?R, isFromCleanup = True, isToCleanup = True\<rparr>"
  have f: "fromId ?R = Some ''E''" "toId ?R = Some ''X''" "entity_type ?R = ''uses''"
    "internal_id ?R = ''R''" "x_index ?R = ''opencti_stix_core_relationships''"
    "relationship_type ?R = Some ''uses''"
    by (simp_all add: relationship_def)
  have e: "internal_id (entity i) = i" "x_index (entity i) = ''opencti_stix_domain_objects''"
    "entity_type (entity i) = ''Malware''" for i
    by (simp_all add: entity_def)
  have d: "READ_DATA_INDICES example_decls = ''opencti_stix*''"
    "buildRefRelationKey example_decls ''uses'' = ''rel_uses.internal_id''"
    "isStixRelationShipExceptMeta example_decls (Some ''uses'')"
    "\<not> isBasicRelationship example_decls ''Malware''"
    by (simp_all add: example_decls_def)
  have b: "el_bulk (store_world simple_store) body" for body
    by (simp add: store_world_def)
  from simple_find obtain q where sf:
    "elFindByIds example_decls (store_world simple_store) admin_user [Some ''E'', Some ''X'']
      \<lparr>indices = READ_DATA_INDICES example_decls, toMap = False, find_type = None\<rparr> =
     ([CacheGet [Some ''E'', Some ''X''], Search q, CacheSet [entity ''E'', entity ''X'']],
      Inr (AsList [entity ''E'', entity ''X'']))"
    by blast
  have c: "elRemoveRelationConnection example_decls (store_world simple_store) admin_user [?c] =
      ([CacheGet [Some ''E'', Some ''X''],
        Search q,
        CacheSet [entity ''E'', entity ''X''],
        CacheDel [entity ''E'', entity ''X''],
        Bulk [BulkUpdateRemoveIf ''opencti_stix_domain_objects'' (Some ''E'') ''rel_uses.internal_id''
                (Some ''X''),
              BulkUpdateRemoveIf ''opencti_stix_domain_objects'' (Some ''X'') ''rel_uses.internal_id''
                (Some ''E'')]], None)"
    by (simp add: elRemoveRelationConnection_def R_uniq_def f sf Let_def js_assign_def e
        elBulk_def b d(2))
  have r: "elDeleteInstanceIds (store_world simple_store) [?R] =
      ([CacheDel [?R], Bulk [BulkDelete ''opencti_stix_core_relationships'' ''R'']], None)"
    "elDeleteInstanceIds (store_world simple_store) [entity ''E''] =
      ([CacheDel [entity ''E''], Bulk [BulkDelete ''opencti_stix_domain_objects'' ''E'']], None)"
    by (simp_all add: elDeleteInstanceIds_def elBulk_def b f e Let_def)
  have s: "R_splitEvery MAX_SPLIT [x] = [[x]]" for x :: 'a
    by (simp add: R_splitEvery_short MAX_SPLIT_def)
  show ?thesis
    by (simp add: elDeleteElements_def simple_run simple_impacts s c r Let_def f e d)
qed

end
